theory Spec2Isabelle
  imports Complex_Main "HOL-Library.Word" "HOL-Library.AList"
begin

section \<open>Conventions of the embedding\<close>

text \<open>
  The three pipelines of the repository are Python modules. The embedding follows them
  function by function:
  \<^item> Python's unbounded integers (bounding-box coordinates, image dimensions) are \<open>int\<close>
    and \<open>nat\<close>;
  \<^item> the \<open>uint8\<close> entries of an image or of a mask are \<open>8 word\<close>;
  \<^item> Python's true division \<open>/\<close> on integers is the exact quotient in \<open>rat\<close>, and a decimal
    literal such as \<open>0.25\<close> is the fraction \<open>25 / 100\<close>. Every comparison in the source is
    between such a quotient of two integers and a decimal constant, so the exact comparison
    and the double-precision one agree as long as the integers stay far below \<open>2 ^ 45\<close>,
    which pixel counts and coordinates do;
  \<^item> a raised exception is a value: functions that can raise return \<open>exn + 'a\<close>.
\<close>

datatype exn =
  ZeroDivisionError | IndexError | AttributeError | TypeError | RecursionError | ValueError

definition truediv :: "int \<Rightarrow> int \<Rightarrow> exn + rat" where
  "truediv a b = (if b = 0 then Inl ZeroDivisionError else Inr (of_int a / of_int b))"

text \<open>A bounding box is the tuple \<open>(x1, y1, x2, y2)\<close> of Python integers.\<close>

type_synonym bbox = "int \<times> int \<times> int \<times> int"

section \<open>Version 1: \<open>utils.py\<close>, geometric checks\<close>

text \<open>
  \<open>check_size_ratio(bbox, image_shape)\<close>: the image shape is \<open>(height, width, ...)\<close>; only the
  first two entries are read.
\<close>

definition check_size_ratio :: "bbox \<Rightarrow> nat \<times> nat \<Rightarrow> exn + bool" where
  "check_size_ratio bbox image_shape =
     (case bbox of (x1, y1, x2, y2) \<Rightarrow>
        let box_area = (x2 - x1) * (y2 - y1);
            img_area = int (fst image_shape) * int (snd image_shape)
        in case truediv box_area img_area of
             Inl e \<Rightarrow> Inl e
           | Inr ratio \<Rightarrow> Inr (ratio \<ge> 25 / 100))"

text \<open>\<open>heuristic_orientation_check(bbox, image=None)\<close>; the image is unused.\<close>

definition heuristic_orientation_check :: "bbox \<Rightarrow> exn + bool" where
  "heuristic_orientation_check bbox =
     (case bbox of (x1, y1, x2, y2) \<Rightarrow>
        let width = x2 - x1;
            height = y2 - y1
        in case (if height > 0 then truediv width height else Inr 0) of
             Inl e \<Rightarrow> Inl e
           | Inr aspect_ratio \<Rightarrow> Inr (aspect_ratio \<ge> 18 / 10))"

definition check_car_orientation_left :: "bbox \<Rightarrow> nat \<times> nat \<Rightarrow> exn + bool" where
  "check_car_orientation_left bbox image_shape =
     (case bbox of (x1, y1, x2, y2) \<Rightarrow>
        let car_center_x = (x1 + x2) div 2;
            image_width = int (snd image_shape)
        in case truediv car_center_x image_width of
             Inl e \<Rightarrow> Inl e
           | Inr relative_position \<Rightarrow>
               Inr (3 / 10 \<le> relative_position \<and> relative_position \<le> 8 / 10))"

section \<open>Version 2: \<open>orientation_classifier.py\<close>\<close>

text \<open>
  The dictionary returned by \<open>classify_orientation\<close>. Its \<open>confidence_scores\<close> entry always
  holds \<open>aspect_ratio\<close> and \<open>position\<close>; the nested \<open>left_facing_factors\<close> dictionary is added
  only inside the \<open>if results["side_view"]\<close> block, so it is an option here.
\<close>

record left_facing_factors =
  position_factor :: bool
  left_bias :: bool
  left_space :: int
  right_space :: int
  facing_score :: nat
  space_ratio :: rat

record confidence_scores =
  cs_aspect_ratio :: rat
  cs_position :: rat
  cs_left_facing_factors :: "left_facing_factors option"

record orientation =
  side_view :: bool
  facing_left :: bool
  confidence :: confidence_scores

text \<open>The \<open>if / elif / else\<close> chain that sets \<open>results["side_view"]\<close>.\<close>

definition side_view_of :: "rat \<Rightarrow> bool" where
  "side_view_of aspect_ratio =
     (if aspect_ratio \<ge> 29 / 10 then True
      else if aspect_ratio \<ge> 215 / 100 \<and> aspect_ratio \<le> 22 / 10 then True
      else False)"

text \<open>
  The score accumulated inside the \<open>if results["side_view"]\<close> block: the position test adds
  one, then the \<open>if / elif / elif\<close> chain on the space ratio adds two, two, one or nothing.
\<close>

definition facing_left_score_of :: "rat \<Rightarrow> rat \<Rightarrow> nat" where
  "facing_left_score_of relative_position ratio =
     (let s0 = (0::nat);
          s1 = (if 48 / 100 \<le> relative_position \<and> relative_position \<le> 51 / 100
                then s0 + 1 else s0)
      in if ratio \<le> 15 / 100 then s1 + 2
         else if 7 / 10 \<le> ratio \<and> ratio \<le> 1 then s1 + 2
         else if 4 / 10 \<le> ratio \<and> ratio \<le> 69 / 100 then s1 + 1
         else s1)"

text \<open>
  \<open>classify_orientation(image, bbox)\<close> reads only \<open>image.shape[1]\<close> from the image (the slice
  \<open>car_region\<close> is never used, and slicing cannot raise), so the model takes the width.
\<close>

definition classify_orientation :: "nat \<Rightarrow> bbox \<Rightarrow> exn + orientation" where
  "classify_orientation shape1 bbox =
     (case bbox of (x1, y1, x2, y2) \<Rightarrow>
        let width = x2 - x1;
            height = y2 - y1
        in case (if height > 0 then truediv width height else Inr 0) of
             Inl e \<Rightarrow> Inl e
           | Inr aspect_ratio \<Rightarrow>
        let car_center_x = (x1 + x2) div 2;
            image_width = int shape1
        in case truediv car_center_x image_width of
             Inl e \<Rightarrow> Inl e
           | Inr relative_position \<Rightarrow>
        let scores = \<lparr>cs_aspect_ratio = aspect_ratio, cs_position = relative_position,
                        cs_left_facing_factors = None\<rparr>;
            results = \<lparr>side_view = side_view_of aspect_ratio, facing_left = False,
                         confidence = scores\<rparr>
        in if side_view results then
             (let left_sp = x1;
                  right_sp = image_width - x2
              in case truediv left_sp (right_sp + 1) of
                   Inl e \<Rightarrow> Inl e
                 | Inr ratio \<Rightarrow>
                     let facing_left_score = facing_left_score_of relative_position ratio
                     in Inr (results
                          \<lparr>facing_left := facing_left_score \<ge> 2,
                           confidence := scores
                             \<lparr>cs_left_facing_factors := Some
                                \<lparr>position_factor =
                                   (48 / 100 \<le> relative_position \<and> relative_position \<le> 51 / 100),
                                 left_bias = True,
                                 left_space = left_sp,
                                 right_space = right_sp,
                                 facing_score = facing_left_score,
                                 space_ratio = ratio\<rparr>\<rparr>\<rparr>))
           else Inr results)"

section \<open>Images, masks and NumPy indexing\<close>

text \<open>
  A two-dimensional NumPy array is its shape and its entries; entries are read only inside
  the shape. \<open>cv2.imread\<close> yields \<open>uint8\<close> arrays: a colour image has three channels per
  pixel (B, G, R), a grayscale one (two-dimensional shape) a single intensity.
\<close>

record 'a ndarray =
  nrows :: nat
  ncols :: nat
  cell :: "nat \<Rightarrow> nat \<Rightarrow> 'a"

type_synonym pixel = "8 word \<times> 8 word \<times> 8 word"

datatype image = Color "pixel ndarray" | Gray "8 word ndarray"

type_synonym mask = "8 word ndarray"

fun shape0 :: "image \<Rightarrow> nat" where
  "shape0 (Color a) = nrows a"
| "shape0 (Gray a) = nrows a"

fun shape1 :: "image \<Rightarrow> nat" where
  "shape1 (Color a) = ncols a"
| "shape1 (Gray a) = ncols a"

text \<open>
  A slice bound \<open>i\<close> on an axis of length \<open>n\<close>: a negative bound counts from the end, and
  every bound is clipped to \<open>0 .. n\<close>. The slice \<open>lo:hi\<close> selects the indices from the
  normalised \<open>lo\<close> up to, not including, the normalised \<open>hi\<close>.
\<close>

definition slice_bound :: "nat \<Rightarrow> int \<Rightarrow> nat" where
  "slice_bound n i = (if i < 0 then nat (max 0 (int n + i)) else min (nat i) n)"

definition in_slice :: "nat \<Rightarrow> int \<Rightarrow> int \<Rightarrow> nat \<Rightarrow> bool" where
  "in_slice n lo hi k = (slice_bound n lo \<le> k \<and> k < slice_bound n hi)"

text \<open>\<open>in_box a bbox r c\<close>: the entry \<open>(r, c)\<close> lies in \<open>a[y1:y2, x1:x2]\<close>.\<close>

definition in_box :: "'a ndarray \<Rightarrow> bbox \<Rightarrow> nat \<Rightarrow> nat \<Rightarrow> bool" where
  "in_box a bbox r c =
     (case bbox of (x1, y1, x2, y2) \<Rightarrow>
        in_slice (nrows a) y1 y2 r \<and> in_slice (ncols a) x1 x2 c)"

text \<open>\<open>a[y1:y2, x1:x2]\<close>\<close>

definition crop :: "'a ndarray \<Rightarrow> bbox \<Rightarrow> 'a ndarray" where
  "crop a bbox =
     (case bbox of (x1, y1, x2, y2) \<Rightarrow>
        \<lparr>nrows = slice_bound (nrows a) y2 - slice_bound (nrows a) y1,
         ncols = slice_bound (ncols a) x2 - slice_bound (ncols a) x1,
         cell = (\<lambda>r c. cell a (slice_bound (nrows a) y1 + r) (slice_bound (ncols a) x1 + c))\<rparr>)"

text \<open>\<open>a[y1:y2, x1:x2] = b\<close>, with \<open>b\<close> of the shape of the slice.\<close>

definition paste :: "'a ndarray \<Rightarrow> bbox \<Rightarrow> 'a ndarray \<Rightarrow> 'a ndarray" where
  "paste a bbox b =
     (case bbox of (x1, y1, x2, y2) \<Rightarrow>
        a\<lparr>cell := (\<lambda>r c. if in_box a bbox r c
                           then cell b (r - slice_bound (nrows a) y1) (c - slice_bound (ncols a) x1)
                           else cell a r c)\<rparr>)"

text \<open>\<open>a[y1:y2, x1:x2] = v\<close> for a scalar \<open>v\<close>.\<close>

definition fill :: "'a ndarray \<Rightarrow> bbox \<Rightarrow> 'a \<Rightarrow> 'a ndarray" where
  "fill a bbox v = a\<lparr>cell := (\<lambda>r c. if in_box a bbox r c then v else cell a r c)\<rparr>"

definition full :: "nat \<Rightarrow> nat \<Rightarrow> 'a \<Rightarrow> 'a ndarray" where
  "full h w v = \<lparr>nrows = h, ncols = w, cell = (\<lambda>r c. v)\<rparr>"

text \<open>An elementwise operation on an array (a comparison, a negation, a cast).\<close>

definition elementwise :: "('a \<Rightarrow> 'b) \<Rightarrow> 'a ndarray \<Rightarrow> 'b ndarray" where
  "elementwise f a = \<lparr>nrows = nrows a, ncols = ncols a, cell = (\<lambda>r c. f (cell a r c))\<rparr>"

text \<open>
  Boolean-mask indexing \<open>a[cond]\<close>: the entries at which the condition holds, in row-major
  order.
\<close>

definition select :: "'a ndarray \<Rightarrow> (nat \<Rightarrow> nat \<Rightarrow> bool) \<Rightarrow> 'a list" where
  "select a cond =
     concat (map (\<lambda>r. map (cell a r) (filter (cond r) [0..<ncols a])) [0..<nrows a])"

text \<open>\<open>np.sum(cond)\<close> for a boolean array: the number of entries at which it holds.\<close>

definition count_where :: "'a ndarray \<Rightarrow> ('a \<Rightarrow> bool) \<Rightarrow> nat" where
  "count_where a P = length (select a (\<lambda>r c. P (cell a r c)))"

text \<open>\<open>np.mean\<close> of a non-empty list of \<open>uint8\<close> values.\<close>

definition mean :: "8 word list \<Rightarrow> rat" where
  "mean xs = of_nat (sum_list (map unat xs)) / of_nat (length xs)"

section \<open>Version 1: \<open>utils.py\<close>, background check\<close>

definition check_background_white :: "image \<Rightarrow> bbox \<Rightarrow> bool" where
  "check_background_white img bbox =
     (let h = shape0 img;
          w = shape1 img;
          msk = fill (full h w (1::8 word)) bbox 0
      in case img of
           Color a \<Rightarrow>
             (let bg_pixels = select a (\<lambda>r c. cell msk r c = 1)
              in if length bg_pixels = 0 then False
                 else let avg_color = (mean (map fst bg_pixels),
                                       mean (map (fst \<circ> snd) bg_pixels),
                                       mean (map (snd \<circ> snd) bg_pixels))
                      in fst avg_color > 180 \<and> fst (snd avg_color) > 180
                         \<and> snd (snd avg_color) > 180)
         | Gray a \<Rightarrow>
             (let bg_pixels = select a (\<lambda>r c. cell msk r c = 1)
              in if length bg_pixels = 0 then False
                 else let avg_brightness = mean bg_pixels
                      in avg_brightness > 180))"

section \<open>Version 2: \<open>utils.py\<close>\<close>

text \<open>
  \<open>check_area_ratio(mask)\<close>: \<open>np.sum(mask == 1)\<close> is a NumPy integer, and a NumPy division by
  zero does not raise: it yields \<open>nan\<close> (with a warning), and every comparison with \<open>nan\<close> is
  false.
\<close>

definition check_area_ratio :: "mask \<Rightarrow> bool" where
  "check_area_ratio msk =
     (let total_pixels = nrows msk * ncols msk;
          car_pixels = count_where msk (\<lambda>v. v = 1)
      in if total_pixels = 0 then False
         else (of_nat car_pixels / of_nat total_pixels :: rat) \<ge> 20 / 100)"

text \<open>
  \<open>check_white_background(image, mask)\<close>. Indexing the image with a boolean array of another
  shape raises \<open>IndexError\<close>. On a grayscale image \<open>bg_pixels\<close> is one-dimensional, the mean
  is a scalar, and its maximum and minimum coincide.
\<close>

definition check_white_background :: "image \<Rightarrow> mask \<Rightarrow> exn + bool" where
  "check_white_background img msk =
     (if nrows msk \<noteq> shape0 img \<or> ncols msk \<noteq> shape1 img then Inl IndexError
      else
      let white_threshold = 200;
          color_balance_threshold = 20
      in case img of
           Color a \<Rightarrow>
             (let bg_pixels = select a (\<lambda>r c. cell msk r c = 0)
              in if length bg_pixels = 0 then Inr False
                 else let avg_color = [mean (map fst bg_pixels),
                                       mean (map (fst \<circ> snd) bg_pixels),
                                       mean (map (snd \<circ> snd) bg_pixels)];
                          is_bright = list_all (\<lambda>v. v > white_threshold) avg_color;
                          is_balanced = Max (set avg_color) - Min (set avg_color)
                                          < color_balance_threshold
                      in Inr (is_bright \<and> is_balanced))
         | Gray a \<Rightarrow>
             (let bg_pixels = select a (\<lambda>r c. cell msk r c = 0)
              in if length bg_pixels = 0 then Inr False
                 else let avg_color = mean bg_pixels;
                          is_bright = avg_color > white_threshold;
                          is_balanced = avg_color - avg_color < color_balance_threshold
                      in Inr (is_bright \<and> is_balanced)))"

section \<open>Version 2: \<open>sam_module.py\<close>\<close>

text \<open>
  \<open>segment_car(image, bbox)\<close>. On a grayscale image \<open>np.all(car_region >= 240, axis=2)\<close>
  raises (the region has no third axis) before the mask is touched, and the \<open>except\<close> branch
  fills the whole box.
\<close>

definition very_white :: "pixel \<Rightarrow> bool" where
  "very_white p =
     (let white_threshold = 240
      in case p of (b, g, r) \<Rightarrow>
           b \<ge> white_threshold \<and> g \<ge> white_threshold \<and> r \<ge> white_threshold)"

definition segment_car :: "image \<Rightarrow> bbox \<Rightarrow> mask" where
  "segment_car img bbox =
     (let h = shape0 img;
          w = shape1 img;
          msk = full h w (0::8 word)
      in case img of
           Color a \<Rightarrow>
             (let car_region = crop a bbox;
                  very_white_px = elementwise very_white car_region;
                  car_mask = elementwise (\<lambda>v. if \<not> v then 1 else (0::8 word)) very_white_px;
                  car_pixels = count_where car_mask (\<lambda>v. v > 0);
                  total_pixels = nrows car_mask * ncols car_mask;
                  car_mask' = (if (of_nat car_pixels :: rat) < of_nat total_pixels * (6 / 10)
                               then full (nrows car_mask) (ncols car_mask) 1 else car_mask)
              in paste msk bbox car_mask')
         | Gray a \<Rightarrow> fill msk bbox 1)"

section \<open>Validation results\<close>

text \<open>
  Every pipeline returns a dictionary. A key that may be absent is an option; the
  \<open>criteria\<close> dictionary keeps its insertion order as an association list.
\<close>

datatype verdict = Yes | No | Error

record validation_result =
  result :: verdict
  criteria :: "(string \<times> bool) list option"
  failure_reasons :: "string list option"
  error :: "string option"
  timestamp :: string
  model_used :: "string option"
  image_path :: "string option"
  quality_score :: "rat option"
  orientation_confidence :: "confidence_scores option"

definition blank_result :: "verdict \<Rightarrow> string \<Rightarrow> validation_result" where
  "blank_result v ts =
     \<lparr>result = v, criteria = None, failure_reasons = None, error = None, timestamp = ts,
      model_used = None, image_path = None, quality_score = None,
      orientation_confidence = None\<rparr>"

text \<open>\<open>str(e)\<close> of the exceptions the evaluators can raise.\<close>

fun str_exn :: "exn \<Rightarrow> string" where
  "str_exn ZeroDivisionError = ''division by zero''"
| "str_exn IndexError = ''boolean index did not match indexed array''"
| "str_exn AttributeError = ''AttributeError''"
| "str_exn TypeError = ''TypeError''"
| "str_exn RecursionError = ''RecursionError''"
| "str_exn ValueError = ''ValueError''"

section \<open>Version 1: \<open>main.py\<close>\<close>

text \<open>
  What \<open>verify_image\<close> obtains from outside the repository: whether the path exists, what
  \<open>cv2.imread\<close> returns, the mean of the grayscale conversion, what the detector reports
  (\<open>detect_car\<close> catches its own exceptions), and the clock.
\<close>

record world_v1 =
  path_exists :: bool
  imread :: "image option"
  mean_brightness :: rat
  detect_car :: "bool \<times> bbox option"
  now :: string

text \<open>
  \<open>validate_image_quality(image)\<close> of version 1. Its \<open>image is None\<close> branch cannot be
  reached from \<open>verify_image\<close>, which returns before the call.
\<close>

definition validate_image_quality_v1 :: "image \<Rightarrow> rat \<Rightarrow> bool \<times> string" where
  "validate_image_quality_v1 img mean_gray =
     (let h = shape0 img; w = shape1 img
      in if h < 100 \<or> w < 100 then (False, ''Image resolution too low'')
         else if mean_gray < 30 then (False, ''Image too dark'')
         else if mean_gray > 250 then (False, ''Image too bright'')
         else (True, ''OK''))"

text \<open>Step 2 of \<open>verify_image\<close>: the four evaluators, called in the source's order.\<close>

definition checks_v1 :: "image \<Rightarrow> bbox \<Rightarrow> exn + (bool \<times> bool \<times> bool \<times> bool)" where
  "checks_v1 img bbox =
     (case check_size_ratio bbox (shape0 img, shape1 img) of
        Inl e \<Rightarrow> Inl e
      | Inr size_ok \<Rightarrow>
     (let background_white = check_background_white img bbox
      in case heuristic_orientation_check bbox of
           Inl e \<Rightarrow> Inl e
         | Inr side \<Rightarrow>
        (case check_car_orientation_left bbox (shape0 img, shape1 img) of
           Inl e \<Rightarrow> Inl e
         | Inr left \<Rightarrow> Inr (size_ok, background_white, side, left))))"

text \<open>
  The list \<open>failure_reasons\<close> as the four \<open>if not ...: append\<close> statements build it. In
  \<open>verify_image\<close> below, \<open>the found\<close> is the box: it is read only after the test
  \<open>not is_car or bbox is None\<close> has failed. Exceptions of the collaborators themselves
  (OpenCV, the detector) are outside the model.
\<close>

definition failure_reasons_v1 :: "bool \<Rightarrow> bool \<Rightarrow> bool \<Rightarrow> bool \<Rightarrow> string list" where
  "failure_reasons_v1 size_ok background_white side left =
     (let fr0 = [];
          fr1 = (if \<not> size_ok
                 then fr0 @ [''Car does not occupy sufficient portion of image (< 1/4)'']
                 else fr0);
          fr2 = (if \<not> background_white
                 then fr1 @ [''Background is not sufficiently white''] else fr1);
          fr3 = (if \<not> side
                 then fr2 @ [''Car does not appear to be in side view (width/height ratio)'']
                 else fr2);
          fr4 = (if \<not> left
                 then fr3 @ [''Car does not appear to be facing left''] else fr3)
      in fr4)"

definition verify_image_v1 :: "world_v1 \<Rightarrow> string \<Rightarrow> string \<Rightarrow> validation_result" where
  "verify_image_v1 world path mode =
     (if \<not> path_exists world
      then (blank_result Error (now world))\<lparr>error := Some ''File not found''\<rparr>
      else case imread world of
        None \<Rightarrow> (blank_result Error (now world))\<lparr>error := Some ''Invalid image format''\<rparr>
      | Some img \<Rightarrow>
     (case validate_image_quality_v1 img (mean_brightness world) of (is_valid, quality_msg) \<Rightarrow>
      if \<not> is_valid
      then (blank_result Error (now world))
             \<lparr>error := Some (''Image quality issue: '' @ quality_msg)\<rparr>
      else case detect_car world of (is_car, found) \<Rightarrow>
      if \<not> is_car \<or> found = None
      then (blank_result No (now world))
             \<lparr>criteria := Some [(''contains_car'', False), (''side_view'', False),
                                 (''white_background'', False), (''proper_size'', False),
                                 (''correct_orientation'', False)],
              failure_reasons := Some [''No car detected in image''],
              model_used := Some ''yolov8n + opencv'',
              image_path := Some path\<rparr>
      else case checks_v1 img (the found) of
        Inl e \<Rightarrow> (blank_result Error (now world))
                   \<lparr>error := Some (str_exn e), image_path := Some path\<rparr>
      | Inr (size_ok, background_white, side, left) \<Rightarrow>
     (let reasons = failure_reasons_v1 size_ok background_white side left;
          all_passed = (is_car \<and> size_ok \<and> background_white \<and> side \<and> left);
          res = (blank_result (if all_passed then Yes else No) (now world))
                  \<lparr>criteria := Some [(''contains_car'', is_car), (''side_view'', side),
                                      (''white_background'', background_white),
                                      (''proper_size'', size_ok),
                                      (''correct_orientation'', left)],
                   model_used := Some ''yolov8n + opencv'',
                   image_path := Some path\<rparr>
      in if \<not> all_passed then res\<lparr>failure_reasons := Some reasons\<rparr> else res)))"

section \<open>Version 2: \<open>main.py\<close>\<close>

text \<open>
  The outside of version 2: in addition to version 1, the standard deviation of the
  grayscale image and the variance of its Laplacian, both computed by OpenCV.
\<close>

record world_v2 =
  path_exists2 :: bool
  imread2 :: "image option"
  mean_brightness2 :: rat
  contrast :: rat
  blur_score :: rat
  detect_car2 :: "bool \<times> bbox option"
  now2 :: string

text \<open>
  \<open>validate_image_quality(image)\<close> of version 2 returns
  \<open>(is_valid, quality_score, issues)\<close>.
\<close>

definition validate_image_quality_v2 ::
  "image \<Rightarrow> rat \<Rightarrow> rat \<Rightarrow> rat \<Rightarrow> bool \<times> rat \<times> string list" where
  "validate_image_quality_v2 img mean_gray contr blur =
     (let h = shape0 img; w = shape1 img;
          issues0 = []; score0 = 1;
          (issues1, score1) = (if h < 200 \<or> w < 200
                               then (issues0 @ [''Low resolution''], score0 - 3 / 10)
                               else (issues0, score0));
          (issues2, score2) = (if mean_gray < 50
                               then (issues1 @ [''Too dark''], score1 - 2 / 10)
                               else if mean_gray > 240
                               then (issues1 @ [''Too bright/overexposed''], score1 - 2 / 10)
                               else (issues1, score1));
          (issues3, score3) = (if contr < 20
                               then (issues2 @ [''Low contrast''], score2 - 2 / 10)
                               else (issues2, score2));
          (issues4, score4) = (if blur < 100
                               then (issues3 @ [''Image appears blurry''], score3 - 3 / 10)
                               else (issues3, score3));
          score = max 0 score4;
          is_valid = (score > 5 / 10 \<and> length issues4 < 3)
      in (is_valid, score, issues4))"

text \<open>\<open>', '.join(issues)\<close>\<close>

fun join_comma :: "string list \<Rightarrow> string" where
  "join_comma [] = []"
| "join_comma [x] = x"
| "join_comma (x # y # ys) = x @ '', '' @ join_comma (y # ys)"

definition failure_reasons_v2 :: "bool \<Rightarrow> bool \<Rightarrow> bool \<Rightarrow> bool \<Rightarrow> string list" where
  "failure_reasons_v2 area_ok background_white side left =
     (let fr0 = [];
          fr1 = (if \<not> area_ok
                 then fr0 @ [''Car does not occupy sufficient portion of image (< 20%)'']
                 else fr0);
          fr2 = (if \<not> background_white
                 then fr1 @ [''Background is not sufficiently white''] else fr1);
          fr3 = (if \<not> side
                 then fr2 @ [''Car does not appear to be in side view''] else fr2);
          fr4 = (if \<not> left
                 then fr3 @ [''Car does not appear to be facing left''] else fr3)
      in fr4)"

text \<open>
  Steps 2 and 3 of \<open>verify_image\<close>: segmentation, then the evaluators in the source's
  order.
\<close>

definition checks_v2 ::
  "image \<Rightarrow> bbox \<Rightarrow> exn + (bool \<times> bool \<times> orientation)" where
  "checks_v2 img bbox =
     (let msk = segment_car img bbox;
          area_ok = check_area_ratio msk
      in case check_white_background img msk of
           Inl e \<Rightarrow> Inl e
         | Inr background_white \<Rightarrow>
        (case classify_orientation (shape1 img) bbox of
           Inl e \<Rightarrow> Inl e
         | Inr orientation_result \<Rightarrow> Inr (area_ok, background_white, orientation_result)))"

definition verify_image_v2 :: "world_v2 \<Rightarrow> string \<Rightarrow> string \<Rightarrow> validation_result" where
  "verify_image_v2 world path mode =
     (if \<not> path_exists2 world
      then (blank_result Error (now2 world))\<lparr>error := Some ''File not found''\<rparr>
      else case imread2 world of
        None \<Rightarrow> (blank_result Error (now2 world))\<lparr>error := Some ''Invalid image format''\<rparr>
      | Some img \<Rightarrow>
     (case validate_image_quality_v2 img (mean_brightness2 world) (contrast world)
             (blur_score world) of (is_quality_ok, q_score, quality_issues) \<Rightarrow>
      if \<not> is_quality_ok
      then (blank_result Error (now2 world))
             \<lparr>error := Some (''Image quality issues: '' @ join_comma quality_issues),
              quality_score := Some q_score\<rparr>
      else case detect_car2 world of (is_car, found) \<Rightarrow>
      if \<not> is_car \<or> found = None
      then (let res = (blank_result No (now2 world))
                        \<lparr>failure_reasons := Some [''No car detected in image''],
                         model_used := Some ''yolov8n + sam + classifier''\<rparr>
            in if mode = ''detailed''
               then res\<lparr>criteria := Some [(''contains_car'', False),
                                           (''proper_segmentation'', False),
                                           (''white_background'', False),
                                           (''proper_size'', False),
                                           (''side_view'', False),
                                           (''facing_left'', False)],
                        image_path := Some path,
                        quality_score := Some q_score\<rparr>
               else res)
      else case checks_v2 img (the found) of
        Inl e \<Rightarrow> (blank_result Error (now2 world))
                   \<lparr>error := Some (''Processing error: '' @ str_exn e)\<rparr>
      | Inr (area_ok, background_white, orientation_result) \<Rightarrow>
     (let side = side_view orientation_result;
          left = facing_left orientation_result;
          reasons = failure_reasons_v2 area_ok background_white side left;
          all_passed = (is_car \<and> area_ok \<and> background_white \<and> side \<and> left);
          res = (blank_result (if all_passed then Yes else No) (now2 world))
                  \<lparr>model_used := Some ''yolov8n + sam + classifier''\<rparr>
      in if mode = ''detailed''
         then (let res' = res\<lparr>criteria := Some [(''contains_car'', is_car),
                                                  (''proper_segmentation'', True),
                                                  (''white_background'', background_white),
                                                  (''proper_size'', area_ok),
                                                  (''side_view'', side),
                                                  (''facing_left'', left)],
                               orientation_confidence := Some (confidence orientation_result),
                               quality_score := Some q_score,
                               image_path := Some path\<rparr>
               in if \<not> all_passed then res'\<lparr>failure_reasons := Some reasons\<rparr> else res')
         else if \<not> all_passed then res\<lparr>failure_reasons := Some reasons\<rparr>
         else res)))"

section \<open>Version 3: \<open>gpt_vision_checker.py\<close>\<close>

text \<open>
  A Python \<open>str\<close> is a sequence of Unicode code points, so the model's answer and every
  string of a JSON document are lists of code points; \<open>pystr\<close> writes an ASCII literal of
  the source.
\<close>

type_synonym ustring = "nat list"

definition pystr :: "string \<Rightarrow> ustring" where
  "pystr s = map of_char s"

datatype json =
    JNull
  | JBool bool
  | JNumber rat
  | JString ustring
  | JArray "json list"
  | JObject "(ustring \<times> json) list"

text \<open>
  \<open>json.loads\<close> belongs to Python's library and is a parameter of the model. On a text it
  yields a document, raises \<open>JSONDecodeError\<close>, or raises another exception: CPython's
  parser raises \<open>RecursionError\<close> on deeply nested input and \<open>ValueError\<close> on an integer
  literal beyond the digit limit, and neither is a \<open>JSONDecodeError\<close>.
\<close>

datatype loads_outcome = Parsed json | JSONDecodeError | Raised exn

text \<open>
  \<open>str.strip()\<close> removes the leading and trailing characters for which \<open>str.isspace()\<close>
  holds: the 29 Unicode whitespace code points.
\<close>

definition isspace :: "nat \<Rightarrow> bool" where
  "isspace n =
     ((9 \<le> n \<and> n \<le> 13) \<or> (28 \<le> n \<and> n \<le> 32) \<or> n = 133 \<or> n = 160 \<or> n = 5760
      \<or> (8192 \<le> n \<and> n \<le> 8202) \<or> n = 8232 \<or> n = 8233 \<or> n = 8239 \<or> n = 8287
      \<or> n = 12288)"

definition strip :: "ustring \<Rightarrow> ustring" where
  "strip s = rev (dropWhile isspace (rev (dropWhile isspace s)))"

definition startswith :: "ustring \<Rightarrow> ustring \<Rightarrow> bool" where
  "startswith s p = (take (length p) s = p)"

definition endswith :: "ustring \<Rightarrow> ustring \<Rightarrow> bool" where
  "endswith s p = (length p \<le> length s \<and> drop (length s - length p) s = p)"

fun contains :: "ustring \<Rightarrow> ustring \<Rightarrow> bool" where
  "contains [] sub = (sub = [])"
| "contains (c # cs) sub = (startswith (c # cs) sub \<or> contains cs sub)"

text \<open>The cleaning of the raw response, from \<open>.strip()\<close> to the second \<open>.strip()\<close>.\<close>

definition clean_response :: "ustring \<Rightarrow> ustring" where
  "clean_response content =
     (let raw0 = strip content;
          raw1 = (if startswith raw0 (pystr ''```json'') then drop 7 raw0 else raw0);
          raw2 = (if endswith raw1 (pystr ''```'') then take (length raw1 - 3) raw1 else raw1)
      in strip raw2)"

text \<open>
  \<open>check_car_image\<close> from the model's answer on: \<open>content\<close> is
  \<open>response.choices[0].message.content\<close>. Only \<open>json.JSONDecodeError\<close> is caught: any
  other exception of \<open>json.loads\<close> leaves the function. On a document that is not an
  object, the membership test or the call of \<open>.get\<close> raises, and that exception is not
  caught either.
\<close>

definition check_car_image :: "(ustring \<Rightarrow> loads_outcome) \<Rightarrow> ustring \<Rightarrow> exn + json" where
  "check_car_image json_loads content =
     (let raw_text = clean_response content
      in case json_loads raw_text of
           JSONDecodeError \<Rightarrow>
             Inr (JObject
               [(pystr ''result'', JString (pystr ''No'')),
                (pystr ''criteria'', JObject
                   [(pystr ''contains_car'', JBool False),
                    (pystr ''side_view'', JBool False),
                    (pystr ''white_background'', JBool False),
                    (pystr ''proper_size'', JBool False),
                    (pystr ''correct_orientation'', JBool False)]),
                (pystr ''failure_reasons'',
                   JArray [JString (pystr ''Failed to parse GPT response'')]),
                (pystr ''error'', JString (pystr ''JSON parsing failed''))])
         | Raised e \<Rightarrow> Inl e
         | Parsed (JObject kvs) \<Rightarrow>
             (if pystr ''criteria'' \<notin> set (map fst kvs)
                 \<and> (map_of kvs (pystr ''result'') = Some (JString (pystr ''Yes''))
                      \<or> map_of kvs (pystr ''result'') = Some (JString (pystr ''No'')))
              then (let yes = JBool (map_of kvs (pystr ''result'')
                                       = Some (JString (pystr ''Yes'')));
                        kvs1 = AList.update (pystr ''criteria'')
                                 (JObject [(pystr ''contains_car'', yes),
                                           (pystr ''side_view'', yes),
                                           (pystr ''white_background'', yes),
                                           (pystr ''proper_size'', yes),
                                           (pystr ''correct_orientation'', yes)]) kvs;
                        kvs2 = (if map_of kvs1 (pystr ''result'')
                                     = Some (JString (pystr ''No''))
                                then AList.update (pystr ''failure_reasons'')
                                       (JArray [JString
                                          (pystr ''Detailed analysis not available'')])
                                       kvs1
                                else kvs1)
                    in Inr (JObject kvs2))
              else Inr (JObject kvs))
         | Parsed (JArray xs) \<Rightarrow>
             (if JString (pystr ''criteria'') \<notin> set xs then Inl AttributeError
              else Inr (JArray xs))
         | Parsed (JString s) \<Rightarrow>
             (if \<not> contains s (pystr ''criteria'') then Inl AttributeError
              else Inr (JString s))
         | Parsed other \<Rightarrow> Inl TypeError)"

section \<open>The specification's wording, as definitions\<close>

text \<open>
  The facing score as the specification words it: a sum of four independent terms, one
  for the position band and one for each band of the space ratio.
\<close>

definition spec_facing_score :: "rat \<Rightarrow> rat \<Rightarrow> nat" where
  "spec_facing_score relative_position ratio =
     (if 48 / 100 \<le> relative_position \<and> relative_position \<le> 51 / 100 then 1 else 0)
     + (if ratio \<le> 15 / 100 then 2 else 0)
     + (if 7 / 10 \<le> ratio \<and> ratio \<le> 1 then 2 else 0)
     + (if 4 / 10 \<le> ratio \<and> ratio \<le> 69 / 100 then 1 else 0)"

text \<open>
  The failure reasons as the specification words them: the criteria are listed in the fixed
  order with their sentences; the sentence of every failing criterion is kept, in that order.
\<close>

definition reasons_in_order :: "(bool \<times> string) list \<Rightarrow> string list" where
  "reasons_in_order checks = map snd (filter (\<lambda>(ok, sentence). \<not> ok) checks)"

text \<open>
  The run of \<open>verify_image\<close> reaches the detector: the file exists, it loads as the image
  \<open>img\<close>, and the quality gate accepts it.
\<close>

definition reaches_detector_v1 :: "world_v1 \<Rightarrow> image \<Rightarrow> bool" where
  "reaches_detector_v1 world img =
     (path_exists world \<and> imread world = Some img
      \<and> fst (validate_image_quality_v1 img (mean_brightness world)))"

definition reaches_detector_v2 :: "world_v2 \<Rightarrow> image \<Rightarrow> bool" where
  "reaches_detector_v2 world img =
     (path_exists2 world \<and> imread2 world = Some img
      \<and> fst (validate_image_quality_v2 img (mean_brightness2 world) (contrast world)
                (blur_score world)))"

text \<open>The detector reports no car: \<open>not is_car or bbox is None\<close>.\<close>

definition no_car :: "bool \<times> bbox option \<Rightarrow> bool" where
  "no_car detection = (\<not> fst detection \<or> snd detection = None)"

section \<open>Example inputs\<close>

text \<open>
  Version 1: a uniformly light-gray image of 100 by 100 pixels, and the world in which
  the detector reports the box \<open>bbox\<close> on it.
\<close>

definition gray_card :: image where
  "gray_card = Color (full 100 100 (200, 200, 200))"

definition gray_card_world :: "bool \<times> bbox option \<Rightarrow> world_v1" where
  "gray_card_world detection =
     \<lparr>path_exists = True, imread = Some gray_card, mean_brightness = 200,
      detect_car = detection, now = ''2025-01-01T00:00:00''\<rparr>"

text \<open>
  Version 2: a 2 by 8 thumbnail with a dark car on columns 1 to 6 and a background of
  colour \<open>bg\<close> on columns 0 and 7. The quality gate raises only the resolution issue.
\<close>

definition thumbnail_px :: "pixel \<Rightarrow> pixel ndarray" where
  "thumbnail_px bg =
     \<lparr>nrows = 2, ncols = 8, cell = (\<lambda>r c. if 1 \<le> c \<and> c < 7 then (10, 20, 30) else bg)\<rparr>"

definition thumbnail_world :: "pixel \<Rightarrow> bool \<times> bbox option \<Rightarrow> world_v2" where
  "thumbnail_world bg detection =
     \<lparr>path_exists2 = True, imread2 = Some (Color (thumbnail_px bg)), mean_brightness2 = 80,
      contrast = 90, blur_score = 500,
      detect_car2 = detection, now2 = ''2025-01-01T00:00:00''\<rparr>"

text \<open>The mask of the thumbnail: the car columns.\<close>

definition thumbnail_mask :: mask where
  "thumbnail_mask =
     \<lparr>nrows = 2, ncols = 8, cell = (\<lambda>r c. if r < 2 \<and> 1 \<le> c \<and> c < 7 then 1 else 0)\<rparr>"

text \<open>
  A stand-in for \<open>json.loads\<close> on the texts used below: it accepts the empty object,
  raises \<open>RecursionError\<close> on a text that opens 996 or more nested arrays, as CPython
  does at its default recursion limit, and rejects every other text.
\<close>

definition loads_stand_in :: "ustring \<Rightarrow> loads_outcome" where
  "loads_stand_in s =
     (if s = pystr ''{}'' then Parsed (JObject [])
      else if 996 \<le> length (takeWhile (\<lambda>c. c = 91) s) then Raised RecursionError
      else JSONDecodeError)"

text \<open>The fallback dictionary with the wording of the specification.\<close>

definition spec_fallback :: json where
  "spec_fallback =
     JObject
       [(pystr ''result'', JString (pystr ''No'')),
        (pystr ''criteria'', JObject
           [(pystr ''contains_car'', JBool False),
            (pystr ''side_view'', JBool False),
            (pystr ''white_background'', JBool False),
            (pystr ''proper_size'', JBool False),
            (pystr ''correct_orientation'', JBool False)]),
        (pystr ''failure_reasons'',
           JArray [JString (pystr ''Failed to parse model response'')]),
        (pystr ''error'', JString (pystr ''JSON parsing failed''))]"

text \<open>A response of 996 opening brackets.\<close>

definition deep_brackets :: ustring where
  "deep_brackets = replicate 996 91"

text \<open>A mask of one row and four columns whose first \<open>k\<close> entries are car.\<close>

definition strip_mask :: "nat \<Rightarrow> mask" where
  "strip_mask k = \<lparr>nrows = 1, ncols = 4, cell = (\<lambda>r c. if c < k then 1 else 0)\<rparr>"

section \<open>Arrays: selection and counting\<close>

lemma set_select:
  "set (select a cond) = {cell a r c | r c. r < nrows a \<and> c < ncols a \<and> cond r c}"
  by (fastforce simp: select_def)

lemma length_select:
  "length (select a cond) = (\<Sum>r\<leftarrow>[0..<nrows a]. length (filter (cond r) [0..<ncols a]))"
  by (simp add: select_def length_concat comp_def)

lemma select_nonempty:
  assumes "r < nrows a" and "c < ncols a" and "cond r c"
  shows "select a cond \<noteq> []"
proof -
  have "cell a r c \<in> set (select a cond)"
    unfolding set_select using assms by blast
  then show ?thesis by auto
qed

lemma count_where_compl:
  "count_where a P + count_where a (\<lambda>v. \<not> P v) = nrows a * ncols a"
proof -
  have "count_where a P + count_where a (\<lambda>v. \<not> P v)
      = (\<Sum>r\<leftarrow>[0..<nrows a]. length (filter (\<lambda>c. P (cell a r c)) [0..<ncols a])
            + length (filter (\<lambda>c. \<not> P (cell a r c)) [0..<ncols a]))"
    by (simp add: count_where_def length_select sum_list_addf)
  also have "\<dots> = (\<Sum>r\<leftarrow>[0..<nrows a]. ncols a)"
    by (simp add: sum_length_filter_compl)
  also have "\<dots> = nrows a * ncols a"
    by (simp add: sum_list_triv)
  finally show ?thesis .
qed

lemma mean_const:
  assumes "xs \<noteq> []" and "\<forall>x\<in>set xs. f x = v"
  shows "mean (map f xs) = of_nat (unat v)"
proof -
  have "map f xs = replicate (length xs) v"
    using assms(2) by (induction xs) auto
  then have "sum_list (map unat (map f xs)) = length xs * unat v"
    by (simp add: sum_list_replicate)
  with assms(1) show ?thesis by (simp add: mean_def)
qed

text \<open>The mask that version 1 builds is one exactly outside the box.\<close>

lemma background_mask_v1:
  "cell (fill (full (nrows a) (ncols a) (1::8 word)) bbox 0) r c = 1 \<longleftrightarrow> \<not> in_box a bbox r c"
  by (auto simp: fill_def full_def in_box_def split: prod.splits)

lemma check_background_white_uniform:
  assumes "r < h" and "c < w" and "\<not> in_box (full h w p) bbox r c"
  shows "check_background_white (Color (full h w p)) bbox
         = (case p of (b, g, r') \<Rightarrow>
              (180::rat) < of_nat (unat b) \<and> (180::rat) < of_nat (unat g)
              \<and> (180::rat) < of_nat (unat r'))"
proof -
  let ?a = "full h w p"
  let ?bg = "select ?a (\<lambda>r c. \<not> in_box ?a bbox r c)"
  have ne: "?bg \<noteq> []"
    using assms by (intro select_nonempty[of r _ c]) (simp_all add: full_def)
  have all: "\<forall>x\<in>set ?bg. x = p"
    by (auto simp: set_select full_def)
  obtain b g r' where p: "p = (b, g, r')" by (cases p) auto
  have m1: "mean (map fst ?bg) = of_nat (unat b)"
    using ne all by (intro mean_const) (auto simp: p)
  have m2: "mean (map (fst \<circ> snd) ?bg) = of_nat (unat g)"
    using ne all by (intro mean_const) (auto simp: p)
  have m3: "mean (map (snd \<circ> snd) ?bg) = of_nat (unat r')"
    using ne all by (intro mean_const) (auto simp: p)
  have bm: "(\<lambda>r c. cell (fill (full (nrows ?a) (ncols ?a) (1::8 word)) bbox 0) r c = 1)
            = (\<lambda>r c. \<not> in_box ?a bbox r c)"
    by (simp add: background_mask_v1 fun_eq_iff)
  have nr: "nrows ?a = h" "ncols ?a = w" by (simp_all add: full_def)
  show ?thesis
    unfolding check_background_white_def Let_def image.case shape0.simps shape1.simps
    using ne m1 m2 m3 bm nr by (simp add: p)
qed

lemma facing_left_score_spec: "facing_left_score_of p r = spec_facing_score p r"
  by (auto simp: facing_left_score_of_def spec_facing_score_def Let_def)

section \<open>Side view (C5, C10)\<close>

lemma side_view_of_bands:
  "side_view_of q \<longleftrightarrow> 29 / 10 \<le> q \<or> (215 / 100 \<le> q \<and> q \<le> 22 / 10)"
  by (simp add: side_view_of_def)

lemma classify_orientation_side_view:
  assumes "classify_orientation w (x1, y1, x2, y2) = Inr res"
  shows "side_view res
         = side_view_of (if y2 - y1 > 0 then of_int (x2 - x1) / of_int (y2 - y1) else 0)"
  using assms
  by (auto simp: classify_orientation_def truediv_def Let_def split: sum.splits if_splits)

text \<open>
  C5. For a bounding box of positive height, the side-view criterion of the simple pipeline
  holds exactly when width / height is at least 1.8. In the orientation-classifier
  pipeline it holds exactly when width / height is at least 2.9 or lies in [2.15, 2.2];
  in particular every ratio from 2.3 to 2.7 is rejected. The classifier returns whenever
  the image has a positive width and the box ends inside it.
\<close>

theorem side_view_thresholds:
  assumes "y1 < y2"
  shows "heuristic_orientation_check (x1, y1, x2, y2)
           = Inr ((18 / 10 :: rat) \<le> of_int (x2 - x1) / of_int (y2 - y1))
       \<and> (\<forall>res. classify_orientation w (x1, y1, x2, y2) = Inr res \<longrightarrow>
             (side_view res \<longleftrightarrow>
                (29 / 10 :: rat) \<le> of_int (x2 - x1) / of_int (y2 - y1)
                \<or> ((215 / 100 :: rat) \<le> of_int (x2 - x1) / of_int (y2 - y1)
                    \<and> of_int (x2 - x1) / of_int (y2 - y1) \<le> (22 / 10 :: rat)))
             \<and> ((23 / 10 :: rat) \<le> of_int (x2 - x1) / of_int (y2 - y1)
                  \<and> of_int (x2 - x1) / of_int (y2 - y1) \<le> (27 / 10 :: rat)
                  \<longrightarrow> \<not> side_view res))
       \<and> (0 < w \<and> x2 \<le> int w \<longrightarrow> (\<exists>res. classify_orientation w (x1, y1, x2, y2) = Inr res))"
proof (intro conjI allI impI)
  define q :: rat where "q = of_int (x2 - x1) / of_int (y2 - y1)"
  show "heuristic_orientation_check (x1, y1, x2, y2)
          = Inr ((18 / 10 :: rat) \<le> of_int (x2 - x1) / of_int (y2 - y1))"
    using assms by (simp add: heuristic_orientation_check_def truediv_def Let_def)
  {
    fix res
    assume r: "classify_orientation w (x1, y1, x2, y2) = Inr res"
    have sv: "side_view res = side_view_of q"
      using classify_orientation_side_view [OF r] assms by (simp add: q_def)
    show "side_view res \<longleftrightarrow>
            (29 / 10 :: rat) \<le> of_int (x2 - x1) / of_int (y2 - y1)
            \<or> ((215 / 100 :: rat) \<le> of_int (x2 - x1) / of_int (y2 - y1)
                \<and> of_int (x2 - x1) / of_int (y2 - y1) \<le> (22 / 10 :: rat))"
      unfolding sv side_view_of_bands q_def ..
    assume "(23 / 10 :: rat) \<le> of_int (x2 - x1) / of_int (y2 - y1)
              \<and> of_int (x2 - x1) / of_int (y2 - y1) \<le> (27 / 10 :: rat)"
    then have "23 / 10 \<le> q \<and> q \<le> 27 / 10" by (simp only: q_def)
    then have "\<not> side_view_of q" unfolding side_view_of_bands by linarith
    then show "\<not> side_view res" by (simp add: sv)
  }
  assume "0 < w \<and> x2 \<le> int w"
  then show "\<exists>res. classify_orientation w (x1, y1, x2, y2) = Inr res"
    by (auto simp: classify_orientation_def truediv_def Let_def split: sum.splits)
qed

theorem side_view_thresholds_witness:
  "(20::int) < 45
   \<and> heuristic_orientation_check (10, 20, 90, 45) = Inr True
   \<and> heuristic_orientation_check (10, 20, 60, 45) = Inr True
   \<and> (\<exists>res. classify_orientation 100 (10, 20, 90, 45) = Inr res \<and> side_view res)
   \<and> (\<exists>res. classify_orientation 100 (10, 20, 60, 45) = Inr res \<and> \<not> side_view res)"
  using side_view_thresholds [of 20 45 10 90 100] side_view_thresholds [of 20 45 10 60 100]
  by auto

text \<open>
  C10. For a bounding box of zero height, neither side-view evaluator raises: the aspect
  ratio is taken as 0 and the criterion is false. (The classifier also divides by the image
  width, so the image has to have a positive width, as every loaded image has.)
\<close>

theorem zero_height_no_division_error:
  "heuristic_orientation_check (x1, y, x2, y) = Inr False
   \<and> (0 < w \<longrightarrow>
        (\<exists>res. classify_orientation w (x1, y, x2, y) = Inr res
           \<and> \<not> side_view res \<and> \<not> facing_left res
           \<and> cs_aspect_ratio (confidence res) = 0))"
  by (auto simp: heuristic_orientation_check_def classify_orientation_def truediv_def
       side_view_of_def Let_def split: sum.splits if_splits)

theorem zero_height_no_division_error_witness:
  "(0::nat) < 100
   \<and> heuristic_orientation_check (10, 40, 90, 40) = Inr False
   \<and> (\<exists>res. classify_orientation 100 (10, 40, 90, 40) = Inr res
         \<and> \<not> side_view res \<and> \<not> facing_left res
         \<and> cs_aspect_ratio (confidence res) = 0)"
  using zero_height_no_division_error [of 10 40 90 100]
  by simp

section \<open>The mask of \<open>segment_car\<close> in closed form\<close>

lemma count_where_elementwise:
  "count_where (elementwise f a) P = count_where a (\<lambda>v. P (f v))"
  by (simp add: count_where_def length_select elementwise_def)

lemma crop_cell:
  assumes "in_box a (x1, y1, x2, y2) r c"
  shows "cell (crop a (x1, y1, x2, y2)) (r - slice_bound (nrows a) y1)
           (c - slice_bound (ncols a) x1) = cell a r c"
  using assms by (simp add: crop_def in_box_def in_slice_def)

lemma removes_too_much:
  assumes "car + white = (tot::nat)"
  shows "(of_nat car :: rat) < of_nat tot * (6 / 10)
         \<longleftrightarrow> (40 / 100 :: rat) * of_nat tot < of_nat white"
proof -
  have "(of_nat tot :: rat) = of_nat car + of_nat white"
    using assms by (metis of_nat_add)
  then show ?thesis by (simp add: field_simps)
qed

lemma segment_car_Color:
  "segment_car (Color a) (x1, y1, x2, y2) =
     \<lparr>nrows = nrows a, ncols = ncols a,
      cell = (\<lambda>r c. if in_box a (x1, y1, x2, y2) r c
                     then (if (40 / 100 :: rat)
                                * of_nat (nrows (crop a (x1, y1, x2, y2))
                                          * ncols (crop a (x1, y1, x2, y2)))
                               < of_nat (count_where (crop a (x1, y1, x2, y2)) very_white)
                           then 1
                           else if very_white (cell a r c) then 0 else 1)
                     else 0)\<rparr>"
proof -
  let ?b = "(x1, y1, x2, y2)"
  let ?reg = "crop a ?b"
  let ?cm = "elementwise (\<lambda>v. if \<not> v then 1 else (0::8 word)) (elementwise very_white ?reg)"
  have cp: "count_where ?cm (\<lambda>v. v > 0) = count_where ?reg (\<lambda>p. \<not> very_white p)"
    by (simp add: count_where_elementwise)
  have tot: "count_where ?reg (\<lambda>p. \<not> very_white p) + count_where ?reg very_white
              = nrows ?reg * ncols ?reg"
    using count_where_compl [of ?reg very_white] by simp
  have dims: "nrows ?cm = nrows ?reg" "ncols ?cm = ncols ?reg"
    by (simp_all add: elementwise_def)
  have cond: "((of_nat (count_where ?cm (\<lambda>v. v > 0)) :: rat)
                  < of_nat (nrows ?cm * ncols ?cm) * (6 / 10))
      \<longleftrightarrow> (40 / 100 :: rat) * of_nat (nrows ?reg * ncols ?reg)
            < of_nat (count_where ?reg very_white)"
    unfolding cp dims by (rule removes_too_much [OF tot])
  have ib: "in_box \<lparr>nrows = nrows a, ncols = ncols a, cell = f\<rparr> ?b = in_box a ?b"
    for f :: "nat \<Rightarrow> nat \<Rightarrow> 8 word"
    by (simp add: in_box_def fun_eq_iff)
  have inside: "cell ?cm (r - slice_bound (nrows a) y1) (c - slice_bound (ncols a) x1)
                = (if very_white (cell a r c) then 0 else 1)"
    if "in_box a ?b r c" for r c
    using crop_cell [OF that] by (simp add: elementwise_def)
  show ?thesis
    unfolding segment_car_def Let_def image.case shape0.simps shape1.simps cond
    by (auto simp: paste_def ib full_def fun_eq_iff inside)
qed

lemma very_white_240:
  "very_white p = (case p of (b, g, r) \<Rightarrow> 240 \<le> b \<and> 240 \<le> g \<and> 240 \<le> r)"
  by (simp add: very_white_def split: prod.splits)

section \<open>The background checks in closed form\<close>

lemma background_select_v1:
  "select a (\<lambda>r c. cell (fill (full (nrows a) (ncols a) (1::8 word)) bbox 0) r c = 1)
   = select a (\<lambda>r c. \<not> in_box a bbox r c)"
  by (simp add: background_mask_v1)

lemma check_background_white_Color:
  "check_background_white (Color a) bbox =
     (let bg = select a (\<lambda>r c. \<not> in_box a bbox r c)
      in bg \<noteq> [] \<and> 180 < mean (map fst bg) \<and> 180 < mean (map (fst \<circ> snd) bg)
         \<and> 180 < mean (map (snd \<circ> snd) bg))"
  by (simp add: check_background_white_def background_select_v1 Let_def)

lemma check_background_white_Gray:
  "check_background_white (Gray a) bbox =
     (let bg = select a (\<lambda>r c. \<not> in_box a bbox r c)
      in bg \<noteq> [] \<and> 180 < mean bg)"
  by (simp add: check_background_white_def background_select_v1 Let_def)

lemma Max_Min_3:
  fixes x :: rat
  shows "Max (set [x, y, z]) = max x (max y z)" and "Min (set [x, y, z]) = min x (min y z)"
  by simp_all

lemma check_white_background_Color:
  assumes "nrows msk = nrows a" and "ncols msk = ncols a"
  shows "check_white_background (Color a) msk =
     Inr (let bg = select a (\<lambda>r c. cell msk r c = 0);
              b = mean (map fst bg); g = mean (map (fst \<circ> snd) bg);
              r = mean (map (snd \<circ> snd) bg)
          in bg \<noteq> [] \<and> 200 < b \<and> 200 < g \<and> 200 < r
             \<and> max b (max g r) - min b (min g r) < 20)"
  using assms
  by (simp add: check_white_background_def Let_def Max_Min_3 del: set_simps Max_insert Min_insert)

lemma check_white_background_Gray:
  assumes "nrows msk = nrows a" and "ncols msk = ncols a"
  shows "check_white_background (Gray a) msk =
     Inr (let bg = select a (\<lambda>r c. cell msk r c = 0)
          in bg \<noteq> [] \<and> 200 < mean bg)"
  using assms by (simp add: check_white_background_def Let_def)

section \<open>Evaluating the examples\<close>

lemma upt_small: "[0..<2] = [0, 1]" "[0..<8] = [0, 1, 2, 3, 4, 5, 6, 7]"
  "[0..<6] = [0, 1, 2, 3, 4, 5]" "[0..<4] = [0, 1, 2, 3]"
  by (simp_all add: upt_rec)

lemma gray_card_reaches:
  "reaches_detector_v1 (gray_card_world d) gray_card"
  by (simp add: reaches_detector_v1_def gray_card_world_def gray_card_def
      validate_image_quality_v1_def full_def)

lemma gray_card_checks_wide:
  "checks_v1 gray_card (0, 25, 100, 75) = Inr (True, True, True, True)"
proof -
  have "check_background_white gray_card (0, 25, 100, 75)"
    unfolding gray_card_def
    using check_background_white_uniform [of 0 100 0 100 "(200, 200, 200)" "(0, 25, 100, 75)"]
    by (simp add: in_box_def in_slice_def slice_bound_def full_def)
  then show ?thesis
    by (simp add: checks_v1_def check_size_ratio_def heuristic_orientation_check_def
        check_car_orientation_left_def truediv_def gray_card_def full_def)
qed

lemma gray_card_checks_small:
  "checks_v1 gray_card (0, 40, 20, 60) = Inr (False, True, False, False)"
proof -
  have "check_background_white gray_card (0, 40, 20, 60)"
    unfolding gray_card_def
    using check_background_white_uniform [of 0 100 0 100 "(200, 200, 200)" "(0, 40, 20, 60)"]
    by (simp add: in_box_def in_slice_def slice_bound_def full_def)
  then show ?thesis
    by (simp add: checks_v1_def check_size_ratio_def heuristic_orientation_check_def
        check_car_orientation_left_def truediv_def gray_card_def full_def)
qed

lemma thumbnail_reaches:
  "reaches_detector_v2 (thumbnail_world bg d) (Color (thumbnail_px bg))"
  by (simp add: reaches_detector_v2_def thumbnail_world_def thumbnail_px_def
      validate_image_quality_v2_def)

lemma thumbnail_box:
  "in_box (thumbnail_px bg) (1, 0, 7, 2) r c \<longleftrightarrow> r < 2 \<and> 1 \<le> c \<and> c < 7"
  by (auto simp: in_box_def in_slice_def slice_bound_def thumbnail_px_def)

lemma thumbnail_crop_white:
  "count_where (crop (thumbnail_px bg) (1, 0, 7, 2)) very_white = 0"
  by (simp add: count_where_def select_def crop_def thumbnail_px_def slice_bound_def
      very_white_def upt_small)

lemma thumbnail_crop_size:
  "nrows (crop (thumbnail_px bg) (1, 0, 7, 2)) * ncols (crop (thumbnail_px bg) (1, 0, 7, 2)) = 12"
  by (simp add: crop_def thumbnail_px_def slice_bound_def)

lemma thumbnail_segment:
  "segment_car (Color (thumbnail_px bg)) (1, 0, 7, 2) = thumbnail_mask"
  unfolding segment_car_Color thumbnail_crop_white thumbnail_crop_size thumbnail_box
  by (auto simp: thumbnail_px_def thumbnail_mask_def very_white_def fun_eq_iff)

lemma thumbnail_mask_count: "count_where thumbnail_mask (\<lambda>v. v = 1) = 12"
  by (simp add: count_where_def select_def upt_small thumbnail_mask_def)

lemma thumbnail_area: "check_area_ratio thumbnail_mask"
  unfolding check_area_ratio_def thumbnail_mask_count
  by (simp add: thumbnail_mask_def)

lemma thumbnail_background:
  "select (thumbnail_px bg) (\<lambda>r c. cell thumbnail_mask r c = 0) = [bg, bg, bg, bg]"
  by (simp add: select_def upt_small thumbnail_px_def thumbnail_mask_def)

lemma mean_4: "mean [x, x, x, x] = of_nat (unat x)"
  by (simp add: mean_def)

lemma thumbnail_white_background:
  "check_white_background (Color (thumbnail_px (b, g, r))) thumbnail_mask =
     Inr (200 < (of_nat (unat b) :: rat) \<and> 200 < (of_nat (unat g) :: rat)
          \<and> 200 < (of_nat (unat r) :: rat)
          \<and> max (of_nat (unat b)) (max (of_nat (unat g)) (of_nat (unat r)))
              - min (of_nat (unat b)) (min (of_nat (unat g)) (of_nat (unat r))) < (20 :: rat))"
proof -
  have d: "nrows thumbnail_mask = nrows (thumbnail_px (b, g, r))"
    "ncols thumbnail_mask = ncols (thumbnail_px (b, g, r))"
    by (simp_all add: thumbnail_mask_def thumbnail_px_def)
  show ?thesis
    unfolding check_white_background_Color [OF d] thumbnail_background Let_def
    by (simp add: mean_4 del: of_nat_unat)
qed

lemma thumbnail_orientation:
  "classify_orientation 8 (1, 0, 7, 2) =
     Inr \<lparr>side_view = True, facing_left = True,
          confidence = \<lparr>cs_aspect_ratio = 3, cs_position = 1 / 2,
            cs_left_facing_factors = Some
              \<lparr>position_factor = True, left_bias = True, left_space = 1, right_space = 1,
               facing_score = 2, space_ratio = 1 / 2\<rparr>\<rparr>\<rparr>"
  by (simp add: classify_orientation_def truediv_def side_view_of_def
      facing_left_score_of_def Let_def)

lemma thumbnail_checks:
  "checks_v2 (Color (thumbnail_px (b, g, r))) (1, 0, 7, 2) =
     Inr (True,
          200 < (of_nat (unat b) :: rat) \<and> 200 < (of_nat (unat g) :: rat)
          \<and> 200 < (of_nat (unat r) :: rat)
          \<and> max (of_nat (unat b)) (max (of_nat (unat g)) (of_nat (unat r)))
              - min (of_nat (unat b)) (min (of_nat (unat g)) (of_nat (unat r))) < (20 :: rat),
          \<lparr>side_view = True, facing_left = True,
           confidence = \<lparr>cs_aspect_ratio = 3, cs_position = 1 / 2,
             cs_left_facing_factors = Some
               \<lparr>position_factor = True, left_bias = True, left_space = 1, right_space = 1,
                facing_score = 2, space_ratio = 1 / 2\<rparr>\<rparr>\<rparr>)"
proof -
  have w: "shape1 (Color (thumbnail_px (b, g, r))) = 8"
    by (simp add: thumbnail_px_def)
  show ?thesis
    unfolding checks_v2_def Let_def thumbnail_segment thumbnail_white_background w
      thumbnail_orientation
    by (simp add: thumbnail_area del: of_nat_unat)
qed

lemma thumbnail_checks_white:
  "checks_v2 (Color (thumbnail_px (250, 250, 250))) (1, 0, 7, 2) =
     Inr (True, True,
          \<lparr>side_view = True, facing_left = True,
           confidence = \<lparr>cs_aspect_ratio = 3, cs_position = 1 / 2,
             cs_left_facing_factors = Some
               \<lparr>position_factor = True, left_bias = True, left_space = 1, right_space = 1,
                facing_score = 2, space_ratio = 1 / 2\<rparr>\<rparr>\<rparr>)"
  unfolding thumbnail_checks by simp

lemma thumbnail_checks_beige:
  "checks_v2 (Color (thumbnail_px (215, 240, 250))) (1, 0, 7, 2) =
     Inr (True, False,
          \<lparr>side_view = True, facing_left = True,
           confidence = \<lparr>cs_aspect_ratio = 3, cs_position = 1 / 2,
             cs_left_facing_factors = Some
               \<lparr>position_factor = True, left_bias = True, left_space = 1, right_space = 1,
                facing_score = 2, space_ratio = 1 / 2\<rparr>\<rparr>\<rparr>)"
  unfolding thumbnail_checks by simp

section \<open>The verdict (C1, C2)\<close>

lemma verify_image_v1_completed:
  assumes "reaches_detector_v1 world img"
    and "detect_car world = (True, Some bbox)"
    and "checks_v1 img bbox = Inr (size_ok, background_white, side, left)"
  shows "verify_image_v1 world path mode =
     (blank_result (if size_ok \<and> background_white \<and> side \<and> left then Yes else No) (now world))
       \<lparr>criteria := Some [(''contains_car'', True), (''side_view'', side),
                           (''white_background'', background_white),
                           (''proper_size'', size_ok),
                           (''correct_orientation'', left)],
        failure_reasons := (if size_ok \<and> background_white \<and> side \<and> left then None
                            else Some (failure_reasons_v1 size_ok background_white side left)),
        model_used := Some ''yolov8n + opencv'',
        image_path := Some path\<rparr>"
  using assms
  by (cases "validate_image_quality_v1 img (mean_brightness world)")
     (auto simp: verify_image_v1_def reaches_detector_v1_def blank_result_def Let_def)

lemma verify_image_v2_completed:
  assumes "reaches_detector_v2 world img"
    and "detect_car2 world = (True, Some bbox)"
    and "checks_v2 img bbox = Inr (area_ok, background_white, ori)"
  shows "result (verify_image_v2 world path mode)
           = (if area_ok \<and> background_white \<and> side_view ori \<and> facing_left ori then Yes else No)"
    and "failure_reasons (verify_image_v2 world path mode)
           = (if area_ok \<and> background_white \<and> side_view ori \<and> facing_left ori then None
              else Some (failure_reasons_v2 area_ok background_white (side_view ori)
                           (facing_left ori)))"
    and "criteria (verify_image_v2 world path mode)
           = (if mode = ''detailed''
              then Some [(''contains_car'', True), (''proper_segmentation'', True),
                         (''white_background'', background_white), (''proper_size'', area_ok),
                         (''side_view'', side_view ori), (''facing_left'', facing_left ori)]
              else None)"
  using assms
  by (cases "validate_image_quality_v2 img (mean_brightness2 world) (contrast world)
               (blur_score world)";
      auto simp: verify_image_v2_def reaches_detector_v2_def blank_result_def Let_def)+

lemma failure_reasons_v1_spec:
  "failure_reasons_v1 size_ok background_white side left =
     reasons_in_order
       [(size_ok, ''Car does not occupy sufficient portion of image (< 1/4)''),
        (background_white, ''Background is not sufficiently white''),
        (side, ''Car does not appear to be in side view (width/height ratio)''),
        (left, ''Car does not appear to be facing left'')]"
  by (simp add: failure_reasons_v1_def reasons_in_order_def Let_def)

lemma failure_reasons_v2_spec:
  "failure_reasons_v2 area_ok background_white side left =
     reasons_in_order
       [(area_ok, ''Car does not occupy sufficient portion of image (< 20%)''),
        (background_white, ''Background is not sufficiently white''),
        (side, ''Car does not appear to be in side view''),
        (left, ''Car does not appear to be facing left'')]"
  by (simp add: failure_reasons_v2_def reasons_in_order_def Let_def)

lemma reasons_in_order_nonempty:
  "reasons_in_order cs \<noteq> [] \<longleftrightarrow> \<not> list_all fst cs"
  by (induction cs) (auto simp: reasons_in_order_def)

lemma verify_image_v1_no_car:
  assumes "reaches_detector_v1 world img" and "no_car (detect_car world)"
  shows "verify_image_v1 world path mode =
     (blank_result No (now world))
             \<lparr>criteria := Some [(''contains_car'', False), (''side_view'', False),
                                 (''white_background'', False), (''proper_size'', False),
                                 (''correct_orientation'', False)],
              failure_reasons := Some [''No car detected in image''],
              model_used := Some ''yolov8n + opencv'',
              image_path := Some path\<rparr>"
  using assms
  by (cases "validate_image_quality_v1 img (mean_brightness world)"; cases "detect_car world")
     (auto simp: verify_image_v1_def reaches_detector_v1_def no_car_def Let_def)

lemma verify_image_v2_no_car:
  assumes "reaches_detector_v2 world img" and "no_car (detect_car2 world)"
  shows "result (verify_image_v2 world path mode) = No"
    and "failure_reasons (verify_image_v2 world path mode) = Some [''No car detected in image'']"
    and "error (verify_image_v2 world path mode) = None"
    and "criteria (verify_image_v2 world path mode) =
          (if mode = ''detailed''
           then Some [(''contains_car'', False), (''proper_segmentation'', False),
                      (''white_background'', False), (''proper_size'', False),
                      (''side_view'', False), (''facing_left'', False)]
           else None)"
  using assms
  by (cases "validate_image_quality_v2 img (mean_brightness2 world) (contrast world)
               (blur_score world)";
      cases "detect_car2 world";
      auto simp: verify_image_v2_def reaches_detector_v2_def no_car_def blank_result_def
        Let_def)+

text \<open>
  C1. When evaluation completes (the run reaches the detector, a car is detected with a
  box, and every evaluator returns), the result is "Yes" exactly when every criterion of
  the returned criteria is true, and "No" as soon as one is false. Version 1 always
  returns the criteria; version 2 returns them in detailed mode, and its verdict does not
  depend on the mode.
\<close>

theorem yes_iff_all_criteria:
  "(reaches_detector_v1 world1 img1 \<and> detect_car world1 = (True, Some bbox1)
      \<and> checks_v1 img1 bbox1 = Inr c1 \<longrightarrow>
      (\<exists>cs. criteria (verify_image_v1 world1 path mode) = Some cs
         \<and> (result (verify_image_v1 world1 path mode) = Yes \<longleftrightarrow> list_all snd cs)
         \<and> (\<not> list_all snd cs \<longrightarrow> result (verify_image_v1 world1 path mode) = No)))
   \<and> (reaches_detector_v2 world2 img2 \<and> detect_car2 world2 = (True, Some bbox2)
      \<and> checks_v2 img2 bbox2 = Inr c2 \<longrightarrow>
      (\<exists>cs. criteria (verify_image_v2 world2 path ''detailed'') = Some cs
         \<and> (result (verify_image_v2 world2 path ''detailed'') = Yes \<longleftrightarrow> list_all snd cs)
         \<and> (\<not> list_all snd cs \<longrightarrow> result (verify_image_v2 world2 path ''detailed'') = No))
      \<and> result (verify_image_v2 world2 path mode)
          = result (verify_image_v2 world2 path ''detailed'')
      \<and> (mode \<noteq> ''detailed'' \<longrightarrow> criteria (verify_image_v2 world2 path mode) = None))"
proof (intro conjI impI)
  assume a: "reaches_detector_v1 world1 img1 \<and> detect_car world1 = (True, Some bbox1)
      \<and> checks_v1 img1 bbox1 = Inr c1"
  obtain s b v l where c1: "c1 = (s, b, v, l)" by (cases c1) auto
  show "\<exists>cs. criteria (verify_image_v1 world1 path mode) = Some cs
         \<and> (result (verify_image_v1 world1 path mode) = Yes \<longleftrightarrow> list_all snd cs)
         \<and> (\<not> list_all snd cs \<longrightarrow> result (verify_image_v1 world1 path mode) = No)"
    using a unfolding c1
    by (auto simp: verify_image_v1_completed blank_result_def)
next
  assume a: "reaches_detector_v2 world2 img2 \<and> detect_car2 world2 = (True, Some bbox2)
      \<and> checks_v2 img2 bbox2 = Inr c2"
  obtain s b ori where c2: "c2 = (s, b, ori)" by (cases c2) auto
  note v2 = verify_image_v2_completed [of world2 img2 bbox2 s b ori path]
  from a show "\<exists>cs. criteria (verify_image_v2 world2 path ''detailed'') = Some cs
         \<and> (result (verify_image_v2 world2 path ''detailed'') = Yes \<longleftrightarrow> list_all snd cs)
         \<and> (\<not> list_all snd cs \<longrightarrow> result (verify_image_v2 world2 path ''detailed'') = No)"
    unfolding c2 by (auto simp: v2)
  from a show "result (verify_image_v2 world2 path mode)
          = result (verify_image_v2 world2 path ''detailed'')"
    unfolding c2 by (simp add: v2)
  assume "mode \<noteq> ''detailed''"
  with a show "criteria (verify_image_v2 world2 path mode) = None"
    unfolding c2 by (simp add: v2)
qed

theorem yes_iff_all_criteria_witness:
  "result (verify_image_v1 (gray_card_world (True, Some (0, 25, 100, 75))) ''car.png'' ''simple'')
     = Yes
   \<and> criteria (verify_image_v1 (gray_card_world (True, Some (0, 25, 100, 75))) ''car.png''
        ''simple'')
     = Some [(''contains_car'', True), (''side_view'', True), (''white_background'', True),
             (''proper_size'', True), (''correct_orientation'', True)]
   \<and> result (verify_image_v2 (thumbnail_world (215, 240, 250) (True, Some (1, 0, 7, 2)))
        ''car.png'' ''simple'') = No
   \<and> criteria (verify_image_v2 (thumbnail_world (215, 240, 250) (True, Some (1, 0, 7, 2)))
        ''car.png'' ''detailed'')
     = Some [(''contains_car'', True), (''proper_segmentation'', True),
             (''white_background'', False), (''proper_size'', True),
             (''side_view'', True), (''facing_left'', True)]"
proof -
  let ?w1 = "gray_card_world (True, Some (0, 25, 100, 75))"
  let ?w2 = "thumbnail_world (215, 240, 250) (True, Some (1, 0, 7, 2))"
  have d1: "detect_car ?w1 = (True, Some (0, 25, 100, 75))"
    by (simp add: gray_card_world_def)
  have d2: "detect_car2 ?w2 = (True, Some (1, 0, 7, 2))"
    by (simp add: thumbnail_world_def)
  have c1: "criteria (verify_image_v1 ?w1 ''car.png'' ''simple'')
     = Some [(''contains_car'', True), (''side_view'', True), (''white_background'', True),
             (''proper_size'', True), (''correct_orientation'', True)]"
    by (simp add: verify_image_v1_completed [OF gray_card_reaches d1 gray_card_checks_wide]
        blank_result_def)
  have c2: "criteria (verify_image_v2 ?w2 ''car.png'' ''detailed'')
     = Some [(''contains_car'', True), (''proper_segmentation'', True),
             (''white_background'', False), (''proper_size'', True),
             (''side_view'', True), (''facing_left'', True)]"
    by (simp add: verify_image_v2_completed(3) [OF thumbnail_reaches d2 thumbnail_checks_beige])
  from yes_iff_all_criteria [of ?w1 gray_card "(0, 25, 100, 75)" "(True, True, True, True)"
      "''car.png''" "''simple''" ?w2 "Color (thumbnail_px (215, 240, 250))" "(1, 0, 7, 2)"]
    gray_card_reaches d1 gray_card_checks_wide thumbnail_reaches d2 thumbnail_checks_beige c1 c2
  show ?thesis by auto
qed

text \<open>
  C2. When evaluation completes with the result "No", \<open>failure_reasons\<close> holds, in the
  fixed order size, background, side view, facing direction, the sentence of each failing
  criterion and nothing else; it is not empty.
\<close>

theorem failure_reasons_fixed_order:
  "(reaches_detector_v1 world1 img1 \<and> detect_car world1 = (True, Some bbox1)
      \<and> checks_v1 img1 bbox1 = Inr (size_ok, background1, side1, left1)
      \<and> result (verify_image_v1 world1 path mode) = No \<longrightarrow>
      failure_reasons (verify_image_v1 world1 path mode) =
        Some (reasons_in_order
          [(size_ok, ''Car does not occupy sufficient portion of image (< 1/4)''),
           (background1, ''Background is not sufficiently white''),
           (side1, ''Car does not appear to be in side view (width/height ratio)''),
           (left1, ''Car does not appear to be facing left'')])
      \<and> failure_reasons (verify_image_v1 world1 path mode) \<noteq> Some [])
   \<and> (reaches_detector_v2 world2 img2 \<and> detect_car2 world2 = (True, Some bbox2)
      \<and> checks_v2 img2 bbox2 = Inr (area_ok, background2, ori)
      \<and> result (verify_image_v2 world2 path mode) = No \<longrightarrow>
      failure_reasons (verify_image_v2 world2 path mode) =
        Some (reasons_in_order
          [(area_ok, ''Car does not occupy sufficient portion of image (< 20%)''),
           (background2, ''Background is not sufficiently white''),
           (side_view ori, ''Car does not appear to be in side view''),
           (facing_left ori, ''Car does not appear to be facing left'')])
      \<and> failure_reasons (verify_image_v2 world2 path mode) \<noteq> Some [])"
proof (intro conjI impI)
  assume a: "reaches_detector_v1 world1 img1 \<and> detect_car world1 = (True, Some bbox1)
      \<and> checks_v1 img1 bbox1 = Inr (size_ok, background1, side1, left1)
      \<and> result (verify_image_v1 world1 path mode) = No"
  then have eq: "verify_image_v1 world1 path mode =
     (blank_result (if size_ok \<and> background1 \<and> side1 \<and> left1 then Yes else No) (now world1))
       \<lparr>criteria := Some [(''contains_car'', True), (''side_view'', side1),
                           (''white_background'', background1),
                           (''proper_size'', size_ok),
                           (''correct_orientation'', left1)],
        failure_reasons := (if size_ok \<and> background1 \<and> side1 \<and> left1 then None
                            else Some (failure_reasons_v1 size_ok background1 side1 left1)),
        model_used := Some ''yolov8n + opencv'',
        image_path := Some path\<rparr>"
    by (intro verify_image_v1_completed) auto
  from a have fails: "\<not> (size_ok \<and> background1 \<and> side1 \<and> left1)"
    unfolding eq by (auto simp: blank_result_def split: if_splits)
  then show r1: "failure_reasons (verify_image_v1 world1 path mode) =
        Some (reasons_in_order
          [(size_ok, ''Car does not occupy sufficient portion of image (< 1/4)''),
           (background1, ''Background is not sufficiently white''),
           (side1, ''Car does not appear to be in side view (width/height ratio)''),
           (left1, ''Car does not appear to be facing left'')])"
    unfolding eq by (simp add: failure_reasons_v1_spec)
  show "failure_reasons (verify_image_v1 world1 path mode) \<noteq> Some []"
    unfolding r1 using fails by (simp add: reasons_in_order_nonempty)
next
  assume a: "reaches_detector_v2 world2 img2 \<and> detect_car2 world2 = (True, Some bbox2)
      \<and> checks_v2 img2 bbox2 = Inr (area_ok, background2, ori)
      \<and> result (verify_image_v2 world2 path mode) = No"
  note v2 = verify_image_v2_completed [of world2 img2 bbox2 area_ok background2 ori path mode]
  from a have fails: "\<not> (area_ok \<and> background2 \<and> side_view ori \<and> facing_left ori)"
    using v2(1) by (auto split: if_splits)
  with a show r2: "failure_reasons (verify_image_v2 world2 path mode) =
        Some (reasons_in_order
          [(area_ok, ''Car does not occupy sufficient portion of image (< 20%)''),
           (background2, ''Background is not sufficiently white''),
           (side_view ori, ''Car does not appear to be in side view''),
           (facing_left ori, ''Car does not appear to be facing left'')])"
    using v2(2) by (simp add: failure_reasons_v2_spec)
  show "failure_reasons (verify_image_v2 world2 path mode) \<noteq> Some []"
    unfolding r2 using fails by (simp add: reasons_in_order_nonempty)
qed

theorem failure_reasons_fixed_order_witness:
  "result (verify_image_v1 (gray_card_world (True, Some (0, 40, 20, 60))) ''car.png'' ''simple'')
     = No
   \<and> failure_reasons
       (verify_image_v1 (gray_card_world (True, Some (0, 40, 20, 60))) ''car.png'' ''simple'')
     = Some [''Car does not occupy sufficient portion of image (< 1/4)'',
             ''Car does not appear to be in side view (width/height ratio)'',
             ''Car does not appear to be facing left'']
   \<and> result (verify_image_v2 (thumbnail_world (215, 240, 250) (True, Some (1, 0, 7, 2)))
        ''car.png'' ''simple'') = No
   \<and> failure_reasons (verify_image_v2 (thumbnail_world (215, 240, 250) (True, Some (1, 0, 7, 2)))
        ''car.png'' ''simple'')
     = Some [''Background is not sufficiently white'']"
proof -
  let ?w1 = "gray_card_world (True, Some (0, 40, 20, 60))"
  let ?w2 = "thumbnail_world (215, 240, 250) (True, Some (1, 0, 7, 2))"
  have d1: "detect_car ?w1 = (True, Some (0, 40, 20, 60))"
    by (simp add: gray_card_world_def)
  have d2: "detect_car2 ?w2 = (True, Some (1, 0, 7, 2))"
    by (simp add: thumbnail_world_def)
  have n1: "result (verify_image_v1 ?w1 ''car.png'' ''simple'') = No"
    by (simp add: verify_image_v1_completed [OF gray_card_reaches d1 gray_card_checks_small]
        blank_result_def)
  have n2: "result (verify_image_v2 ?w2 ''car.png'' ''simple'') = No"
    by (simp add: verify_image_v2_completed(1) [OF thumbnail_reaches d2 thumbnail_checks_beige])
  from failure_reasons_fixed_order [of ?w1 gray_card "(0, 40, 20, 60)" False True False False
      "''car.png''" "''simple''" ?w2 "Color (thumbnail_px (215, 240, 250))" "(1, 0, 7, 2)"
      True False]
    gray_card_reaches d1 gray_card_checks_small thumbnail_reaches d2 thumbnail_checks_beige n1 n2
  show ?thesis by (simp add: reasons_in_order_def)
qed

section \<open>No detection (C3)\<close>

text \<open>
  C3, as the code has it. When the run reaches the detector and the detector reports no
  car (\<open>found\<close> false, or no box), the result is "No", not "Error", with
  \<open>failure_reasons = ["No car detected in image"]\<close>. Version 1 always, and version 2 in
  detailed mode, also return the criteria, every one of them false; version 2 in simple
  mode returns none.
\<close>

theorem no_detection_verdict:
  "(reaches_detector_v1 world1 img1 \<and> no_car (detect_car world1) \<longrightarrow>
      result (verify_image_v1 world1 path mode) = No
      \<and> failure_reasons (verify_image_v1 world1 path mode) = Some [''No car detected in image'']
      \<and> error (verify_image_v1 world1 path mode) = None
      \<and> criteria (verify_image_v1 world1 path mode)
          = Some [(''contains_car'', False), (''side_view'', False),
                  (''white_background'', False), (''proper_size'', False),
                  (''correct_orientation'', False)])
   \<and> (reaches_detector_v2 world2 img2 \<and> no_car (detect_car2 world2) \<longrightarrow>
      result (verify_image_v2 world2 path mode) = No
      \<and> failure_reasons (verify_image_v2 world2 path mode) = Some [''No car detected in image'']
      \<and> error (verify_image_v2 world2 path mode) = None
      \<and> criteria (verify_image_v2 world2 path mode)
          = (if mode = ''detailed''
             then Some [(''contains_car'', False), (''proper_segmentation'', False),
                        (''white_background'', False), (''proper_size'', False),
                        (''side_view'', False), (''facing_left'', False)]
             else None))"
proof (intro conjI impI)
  assume a: "reaches_detector_v1 world1 img1 \<and> no_car (detect_car world1)"
  then have eq: "verify_image_v1 world1 path mode =
     (blank_result No (now world1))
             \<lparr>criteria := Some [(''contains_car'', False), (''side_view'', False),
                                 (''white_background'', False), (''proper_size'', False),
                                 (''correct_orientation'', False)],
              failure_reasons := Some [''No car detected in image''],
              model_used := Some ''yolov8n + opencv'',
              image_path := Some path\<rparr>"
    by (intro verify_image_v1_no_car) auto
  show "result (verify_image_v1 world1 path mode) = No"
    "failure_reasons (verify_image_v1 world1 path mode) = Some [''No car detected in image'']"
    "error (verify_image_v1 world1 path mode) = None"
    "criteria (verify_image_v1 world1 path mode)
          = Some [(''contains_car'', False), (''side_view'', False),
                  (''white_background'', False), (''proper_size'', False),
                  (''correct_orientation'', False)]"
    unfolding eq by (simp_all add: blank_result_def)
next
  assume a: "reaches_detector_v2 world2 img2 \<and> no_car (detect_car2 world2)"
  then have r: "reaches_detector_v2 world2 img2" and n: "no_car (detect_car2 world2)"
    by auto
  show "result (verify_image_v2 world2 path mode) = No"
    by (rule verify_image_v2_no_car(1) [OF r n])
  show "failure_reasons (verify_image_v2 world2 path mode) = Some [''No car detected in image'']"
    by (rule verify_image_v2_no_car(2) [OF r n])
  show "error (verify_image_v2 world2 path mode) = None"
    by (rule verify_image_v2_no_car(3) [OF r n])
  show "criteria (verify_image_v2 world2 path mode)
          = (if mode = ''detailed''
             then Some [(''contains_car'', False), (''proper_segmentation'', False),
                        (''white_background'', False), (''proper_size'', False),
                        (''side_view'', False), (''facing_left'', False)]
             else None)"
    by (rule verify_image_v2_no_car(4) [OF r n])
qed

theorem no_detection_verdict_witness:
  "no_car (False, None)
   \<and> result (verify_image_v1 (gray_card_world (False, None)) ''car.png'' ''detailed'') = No
   \<and> failure_reasons (verify_image_v1 (gray_card_world (False, None)) ''car.png'' ''detailed'')
       = Some [''No car detected in image'']
   \<and> criteria (verify_image_v1 (gray_card_world (False, None)) ''car.png'' ''detailed'')
       = Some [(''contains_car'', False), (''side_view'', False),
               (''white_background'', False), (''proper_size'', False),
               (''correct_orientation'', False)]
   \<and> result (verify_image_v2 (thumbnail_world (250, 250, 250) (False, None)) ''car.png''
         ''detailed'') = No
   \<and> failure_reasons (verify_image_v2 (thumbnail_world (250, 250, 250) (False, None))
         ''car.png'' ''detailed'') = Some [''No car detected in image'']
   \<and> criteria (verify_image_v2 (thumbnail_world (250, 250, 250) (False, None)) ''car.png''
         ''detailed'')
       = Some [(''contains_car'', False), (''proper_segmentation'', False),
               (''white_background'', False), (''proper_size'', False),
               (''side_view'', False), (''facing_left'', False)]"
proof -
  have n: "no_car (False, None)" by (simp add: no_car_def)
  have d1: "detect_car (gray_card_world (False, None)) = (False, None)"
    by (simp add: gray_card_world_def)
  have d2: "detect_car2 (thumbnail_world (250, 250, 250) (False, None)) = (False, None)"
    by (simp add: thumbnail_world_def)
  from no_detection_verdict [of "gray_card_world (False, None)" gray_card "''car.png''"
      "''detailed''" "thumbnail_world (250, 250, 250) (False, None)"
      "Color (thumbnail_px (250, 250, 250))"]
    gray_card_reaches [of "(False, None)"] thumbnail_reaches [of "(250, 250, 250)" "(False, None)"]
    n d1 d2
  show ?thesis by simp
qed

text \<open>
  C3 as stated ("no CriterionSet in the result") fails on version 1: with no detection
  on the gray card the result carries the criteria.
\<close>

theorem no_detection_keeps_criteria:
  "\<not> (result (verify_image_v1 (gray_card_world (False, None)) ''car.png'' ''detailed'') = No
      \<and> failure_reasons (verify_image_v1 (gray_card_world (False, None)) ''car.png''
           ''detailed'') = Some [''No car detected in image'']
      \<and> criteria (verify_image_v1 (gray_card_world (False, None)) ''car.png'' ''detailed'')
           = None)"
proof -
  have d1: "no_car (detect_car (gray_card_world (False, None)))"
    by (simp add: gray_card_world_def no_car_def)
  show ?thesis
    by (simp add: verify_image_v1_no_car [OF gray_card_reaches d1] blank_result_def)
qed

section \<open>Facing direction (C4)\<close>

text \<open>
  C4. In the orientation classifier, when side view is false, facing-left is false and the
  left-facing factors (with the space ratio) are absent; the function then returns without
  dividing by \<open>image_width - x2 + 1\<close>, even where that is zero. When side view is true,
  facing-left holds exactly when the score is at least 2, where the score is the sum
  worded in the specification, with \<open>space_ratio = x1 / (image_width - x2 + 1)\<close>.
\<close>

theorem facing_left_scored_after_side_view:
  "(classify_orientation w (x1, y1, x2, y2) = Inr res \<and> \<not> side_view res \<longrightarrow>
      \<not> facing_left res \<and> cs_left_facing_factors (confidence res) = None)
   \<and> (classify_orientation w (x1, y1, x2, y2) = Inr res \<and> side_view res \<longrightarrow>
      (facing_left res \<longleftrightarrow>
         2 \<le> spec_facing_score (of_int ((x1 + x2) div 2) / of_int (int w))
                (of_int x1 / of_int (int w - x2 + 1)))
      \<and> (\<exists>f. cs_left_facing_factors (confidence res) = Some f
            \<and> space_ratio f = of_int x1 / of_int (int w - x2 + 1)
            \<and> facing_score f
                = spec_facing_score (of_int ((x1 + x2) div 2) / of_int (int w))
                    (of_int x1 / of_int (int w - x2 + 1))))
   \<and> (0 < w
       \<and> \<not> side_view_of (if y2 - y1 > 0 then of_int (x2 - x1) / of_int (y2 - y1) else 0) \<longrightarrow>
      (\<exists>r. classify_orientation w (x1, y1, x2, y2) = Inr r \<and> \<not> side_view r))
   \<and> (0 < w \<and> int w - x2 + 1 \<noteq> 0 \<longrightarrow>
      (\<exists>r. classify_orientation w (x1, y1, x2, y2) = Inr r))"
  by (auto simp: classify_orientation_def truediv_def Let_def facing_left_score_spec
       split: sum.splits if_splits)

theorem facing_left_scored_after_side_view_witness:
  "(\<exists>res. classify_orientation 8 (1, 0, 7, 2) = Inr res \<and> side_view res \<and> facing_left res)
   \<and> spec_facing_score (of_int ((1 + 7) div 2) / of_int (int 8)) (of_int 1 / of_int (int 8 - 7 + 1))
       = 2
   \<and> (\<exists>res. classify_orientation 100 (10, 20, 101, 65) = Inr res \<and> \<not> side_view res
         \<and> \<not> facing_left res \<and> cs_left_facing_factors (confidence res) = None)"
proof -
  have s: "spec_facing_score (of_int ((1 + 7) div 2) / of_int (int 8))
             (of_int 1 / of_int (int 8 - 7 + 1)) = 2"
    by (simp add: spec_facing_score_def)
  have nsv: "\<not> side_view_of (if (65::int) - 20 > 0 then of_int (101 - 10) / of_int (65 - 20) else 0)"
    by (simp add: side_view_of_def)
  obtain r where r: "classify_orientation 100 (10, 20, 101, 65) = Inr r" "\<not> side_view r"
    using facing_left_scored_after_side_view [of 100 10 20 101 65] nsv by auto
  have "\<not> facing_left r \<and> cs_left_facing_factors (confidence r) = None"
    using facing_left_scored_after_side_view [of 100 10 20 101 65 r] r by blast
  with r have b: "\<exists>res. classify_orientation 100 (10, 20, 101, 65) = Inr res \<and> \<not> side_view res
         \<and> \<not> facing_left res \<and> cs_left_facing_factors (confidence res) = None"
    by blast
  have a: "\<exists>res. classify_orientation 8 (1, 0, 7, 2) = Inr res \<and> side_view res \<and> facing_left res"
    using facing_left_scored_after_side_view [of 8 1 0 7 2
        "\<lparr>side_view = True, facing_left = True,
          confidence = \<lparr>cs_aspect_ratio = 3, cs_position = 1 / 2,
            cs_left_facing_factors = Some
              \<lparr>position_factor = True, left_bias = True, left_space = 1, right_space = 1,
               facing_score = 2, space_ratio = 1 / 2\<rparr>\<rparr>\<rparr>"]
    by (simp add: thumbnail_orientation)
  from a s b show ?thesis by blast
qed

section \<open>Size (C9)\<close>

text \<open>
  C9. The size criterion is monotone: over the same image, a box of at least the area of
  a passing box passes, and a mask of the same shape with at least as many car pixels as
  a passing mask passes.
\<close>

theorem size_check_monotone:
  "(check_size_ratio (x1, y1, x2, y2) shp = Inr True
      \<and> (x2 - x1) * (y2 - y1) \<le> (x2' - x1') * (y2' - y1')
      \<longrightarrow> check_size_ratio (x1', y1', x2', y2') shp = Inr True)
   \<and> (check_area_ratio m \<and> nrows m' = nrows m \<and> ncols m' = ncols m
      \<and> count_where m (\<lambda>v. v = 1) \<le> count_where m' (\<lambda>v. v = 1)
      \<longrightarrow> check_area_ratio m')"
proof (intro conjI impI)
  assume a: "check_size_ratio (x1, y1, x2, y2) shp = Inr True
      \<and> (x2 - x1) * (y2 - y1) \<le> (x2' - x1') * (y2' - y1')"
  define A where "A = int (fst shp) * int (snd shp)"
  from a have nz: "A \<noteq> 0"
    by (auto simp: check_size_ratio_def truediv_def Let_def A_def split: if_splits)
  have "0 \<le> A" by (simp add: A_def)
  with nz have pos: "0 < (of_int A :: rat)" by simp
  from a nz have "(25 / 100 :: rat) \<le> of_int ((x2 - x1) * (y2 - y1)) / of_int A"
    by (auto simp: check_size_ratio_def truediv_def Let_def A_def split: if_splits)
  also have "\<dots> \<le> of_int ((x2' - x1') * (y2' - y1')) / of_int A"
    using a pos by (intro divide_right_mono) (simp_all only: of_int_le_iff less_imp_le)
  finally show "check_size_ratio (x1', y1', x2', y2') shp = Inr True"
    using nz by (simp add: check_size_ratio_def truediv_def Let_def A_def)
next
  assume a: "check_area_ratio m \<and> nrows m' = nrows m \<and> ncols m' = ncols m
      \<and> count_where m (\<lambda>v. v = 1) \<le> count_where m' (\<lambda>v. v = 1)"
  define T where "T = nrows m * ncols m"
  from a have nz: "T \<noteq> 0" by (auto simp: check_area_ratio_def Let_def T_def split: if_splits)
  from a nz have "(20 / 100 :: rat) \<le> of_nat (count_where m (\<lambda>v. v = 1)) / of_nat T"
    by (auto simp: check_area_ratio_def Let_def T_def split: if_splits)
  also have "\<dots> \<le> of_nat (count_where m' (\<lambda>v. v = 1)) / of_nat T"
    using a by (intro divide_right_mono) simp_all
  finally show "check_area_ratio m'"
    using nz a by (simp add: check_area_ratio_def Let_def T_def)
qed

lemma strip_mask_count: "k \<le> 4 \<Longrightarrow> count_where (strip_mask k) (\<lambda>v. v = 1) = k"
proof -
  assume "k \<le> 4"
  then consider "k = 0" | "k = 1" | "k = 2" | "k = 3" | "k = 4" by linarith
  then show ?thesis
    by cases (simp_all add: count_where_def select_def strip_mask_def upt_small)
qed

theorem size_check_monotone_witness:
  "check_size_ratio (0, 25, 100, 75) (100, 100) = Inr True
   \<and> check_size_ratio (0, 0, 100, 100) (100, 100) = Inr True
   \<and> check_area_ratio (strip_mask 1)
   \<and> count_where (strip_mask 1) (\<lambda>v. v = 1) \<le> count_where (strip_mask 3) (\<lambda>v. v = 1)
   \<and> check_area_ratio (strip_mask 3)"
proof -
  have a: "check_size_ratio (0, 25, 100, 75) (100, 100) = Inr True"
    by (simp add: check_size_ratio_def truediv_def)
  have b: "check_area_ratio (strip_mask 1)"
    by (simp add: check_area_ratio_def strip_mask_count) (simp add: strip_mask_def)
  have c: "count_where (strip_mask 1) (\<lambda>v. v = 1) \<le> count_where (strip_mask 3) (\<lambda>v. v = 1)"
    by (simp add: strip_mask_count)
  have d: "nrows (strip_mask 3) = nrows (strip_mask 1) \<and> ncols (strip_mask 3) = ncols (strip_mask 1)"
    by (simp add: strip_mask_def)
  from size_check_monotone [where ?x1.0 = 0 and ?y1.0 = 25 and ?x2.0 = 100 and ?y2.0 = 75
      and shp = "(100, 100)" and x1' = 0 and y1' = 0 and x2' = 100 and y2' = 100
      and m = "strip_mask 1" and m' = "strip_mask 3"]
    a b c d
  show ?thesis by simp
qed

section \<open>Background whiteness (C6)\<close>

text \<open>
  C6. Both background checks are false on an empty background (the pixels outside the
  box in the simple pipeline, the pixels where the mask is 0 in the mask-based one). On a
  non-empty background the simple pipeline's check holds exactly when the average
  background colour exceeds 180 in every channel. The mask-based check returns, and it
  additionally requires the channel balance: whenever it holds, the average exceeds 180 in
  every channel and its largest channel minus its smallest is below 20, and whenever the
  balance is 20 or more it is false, however bright the background. (Its own brightness
  bound is 200, see \<open>check_white_background_Color\<close>.)
\<close>

theorem background_white_thresholds:
  "(select a (\<lambda>r c. \<not> in_box a bbox r c) = [] \<longrightarrow> \<not> check_background_white (Color a) bbox)
   \<and> (select a (\<lambda>r c. \<not> in_box a bbox r c) \<noteq> [] \<longrightarrow>
        (check_background_white (Color a) bbox \<longleftrightarrow>
           180 < mean (map fst (select a (\<lambda>r c. \<not> in_box a bbox r c)))
           \<and> 180 < mean (map (fst \<circ> snd) (select a (\<lambda>r c. \<not> in_box a bbox r c)))
           \<and> 180 < mean (map (snd \<circ> snd) (select a (\<lambda>r c. \<not> in_box a bbox r c)))))
   \<and> (nrows msk = nrows a \<and> ncols msk = ncols a \<longrightarrow>
        (check_white_background (Color a) msk = Inr True
           \<or> check_white_background (Color a) msk = Inr False)
        \<and> (select a (\<lambda>r c. cell msk r c = 0) = [] \<longrightarrow>
              check_white_background (Color a) msk = Inr False)
        \<and> (check_white_background (Color a) msk = Inr True \<longrightarrow>
              select a (\<lambda>r c. cell msk r c = 0) \<noteq> []
              \<and> 180 < mean (map fst (select a (\<lambda>r c. cell msk r c = 0)))
              \<and> 180 < mean (map (fst \<circ> snd) (select a (\<lambda>r c. cell msk r c = 0)))
              \<and> 180 < mean (map (snd \<circ> snd) (select a (\<lambda>r c. cell msk r c = 0)))
              \<and> max (mean (map fst (select a (\<lambda>r c. cell msk r c = 0))))
                    (max (mean (map (fst \<circ> snd) (select a (\<lambda>r c. cell msk r c = 0))))
                         (mean (map (snd \<circ> snd) (select a (\<lambda>r c. cell msk r c = 0)))))
                  - min (mean (map fst (select a (\<lambda>r c. cell msk r c = 0))))
                      (min (mean (map (fst \<circ> snd) (select a (\<lambda>r c. cell msk r c = 0))))
                           (mean (map (snd \<circ> snd) (select a (\<lambda>r c. cell msk r c = 0)))))
                  < 20)
        \<and> (\<not> max (mean (map fst (select a (\<lambda>r c. cell msk r c = 0))))
                    (max (mean (map (fst \<circ> snd) (select a (\<lambda>r c. cell msk r c = 0))))
                         (mean (map (snd \<circ> snd) (select a (\<lambda>r c. cell msk r c = 0)))))
                  - min (mean (map fst (select a (\<lambda>r c. cell msk r c = 0))))
                      (min (mean (map (fst \<circ> snd) (select a (\<lambda>r c. cell msk r c = 0))))
                           (mean (map (snd \<circ> snd) (select a (\<lambda>r c. cell msk r c = 0)))))
                  < 20 \<longrightarrow>
              check_white_background (Color a) msk = Inr False))"
proof (intro conjI impI)
  let ?bg1 = "select a (\<lambda>r c. \<not> in_box a bbox r c)"
  show "\<not> check_background_white (Color a) bbox" if "?bg1 = []"
    using that by (simp add: check_background_white_Color)
  show "check_background_white (Color a) bbox \<longleftrightarrow>
           180 < mean (map fst ?bg1) \<and> 180 < mean (map (fst \<circ> snd) ?bg1)
           \<and> 180 < mean (map (snd \<circ> snd) ?bg1)" if "?bg1 \<noteq> []"
    using that by (simp add: check_background_white_Color Let_def)
next
  assume d: "nrows msk = nrows a \<and> ncols msk = ncols a"
  then have eq: "check_white_background (Color a) msk =
     Inr (let bg = select a (\<lambda>r c. cell msk r c = 0);
              b = mean (map fst bg); g = mean (map (fst \<circ> snd) bg);
              r = mean (map (snd \<circ> snd) bg)
          in bg \<noteq> [] \<and> 200 < b \<and> 200 < g \<and> 200 < r
             \<and> max b (max g r) - min b (min g r) < 20)"
    by (intro check_white_background_Color) simp_all
  let ?bg = "select a (\<lambda>r c. cell msk r c = 0)"
  show "check_white_background (Color a) msk = Inr True
           \<or> check_white_background (Color a) msk = Inr False"
    unfolding eq by simp
  show "check_white_background (Color a) msk = Inr False" if "?bg = []"
    unfolding eq using that by simp
  {
    assume t: "check_white_background (Color a) msk = Inr True"
    then have all: "?bg \<noteq> [] \<and> 200 < mean (map fst ?bg) \<and> 200 < mean (map (fst \<circ> snd) ?bg)
        \<and> 200 < mean (map (snd \<circ> snd) ?bg)
        \<and> max (mean (map fst ?bg)) (max (mean (map (fst \<circ> snd) ?bg)) (mean (map (snd \<circ> snd) ?bg)))
            - min (mean (map fst ?bg)) (min (mean (map (fst \<circ> snd) ?bg)) (mean (map (snd \<circ> snd) ?bg)))
            < 20"
      unfolding eq by (simp add: Let_def)
    from all show "?bg \<noteq> []" by simp
    from all show "180 < mean (map fst ?bg)" by linarith
    from all show "180 < mean (map (fst \<circ> snd) ?bg)" by linarith
    from all show "180 < mean (map (snd \<circ> snd) ?bg)" by linarith
    from all show "max (mean (map fst ?bg)) (max (mean (map (fst \<circ> snd) ?bg)) (mean (map (snd \<circ> snd) ?bg)))
            - min (mean (map fst ?bg)) (min (mean (map (fst \<circ> snd) ?bg)) (mean (map (snd \<circ> snd) ?bg)))
            < 20" by simp
  }
  show "check_white_background (Color a) msk = Inr False"
    if "\<not> max (mean (map fst ?bg)) (max (mean (map (fst \<circ> snd) ?bg)) (mean (map (snd \<circ> snd) ?bg)))
            - min (mean (map fst ?bg)) (min (mean (map (fst \<circ> snd) ?bg)) (mean (map (snd \<circ> snd) ?bg)))
            < 20"
    unfolding eq using that by (simp add: Let_def)
qed

theorem background_white_thresholds_witness:
  "nrows thumbnail_mask = nrows (thumbnail_px (250, 250, 250))
   \<and> ncols thumbnail_mask = ncols (thumbnail_px (250, 250, 250))
   \<and> select (thumbnail_px (250, 250, 250)) (\<lambda>r c. cell thumbnail_mask r c = 0)
       = [(250, 250, 250), (250, 250, 250), (250, 250, 250), (250, 250, 250)]
   \<and> check_white_background (Color (thumbnail_px (250, 250, 250))) thumbnail_mask = Inr True
   \<and> 180 < mean (map fst (select (thumbnail_px (250, 250, 250))
                              (\<lambda>r c. cell thumbnail_mask r c = 0)))
   \<and> select (thumbnail_px (215, 240, 250)) (\<lambda>r c. cell thumbnail_mask r c = 0)
       = [(215, 240, 250), (215, 240, 250), (215, 240, 250), (215, 240, 250)]
   \<and> check_white_background (Color (thumbnail_px (215, 240, 250))) thumbnail_mask = Inr False
   \<and> check_background_white gray_card (0, 25, 100, 75)"
proof -
  have d: "nrows thumbnail_mask = nrows (thumbnail_px p)
           \<and> ncols thumbnail_mask = ncols (thumbnail_px p)" for p
    by (simp add: thumbnail_mask_def thumbnail_px_def)
  have m: "mean [x, x, x, x] = of_nat (unat x)" for x
    by (simp add: mean_def)
  have t: "check_white_background (Color (thumbnail_px (250, 250, 250))) thumbnail_mask = Inr True"
    by (simp add: thumbnail_white_background)
  have beige: "check_white_background (Color (thumbnail_px (215, 240, 250))) thumbnail_mask
               = Inr False"
    using background_white_thresholds [of "thumbnail_px (215, 240, 250)" "(1, 0, 7, 2)"
        thumbnail_mask] d [of "(215, 240, 250)"]
    by (simp add: thumbnail_background m)
  have white: "180 < mean (map fst (select (thumbnail_px (250, 250, 250))
                              (\<lambda>r c. cell thumbnail_mask r c = 0)))"
    using background_white_thresholds [of "thumbnail_px (250, 250, 250)" "(1, 0, 7, 2)"
        thumbnail_mask] d [of "(250, 250, 250)"] t
    by blast
  have card: "check_background_white gray_card (0, 25, 100, 75)"
    using gray_card_checks_wide
    by (auto simp: checks_v1_def split: sum.splits)
  from d [of "(250, 250, 250)"] t white beige card show ?thesis
    by (simp add: thumbnail_background)
qed

section \<open>Segmentation (C7)\<close>

text \<open>
  C7. On a colour image the mask has the image's shape, is 0 outside the box, and inside
  the box is 1 except at pixels that are at least 240 in every channel; when those pixels
  are more than 40% of the box, the exclusion is dropped and the mask is 1 on the whole box.
\<close>

theorem segment_car_white_exclusion:
  "nrows (segment_car (Color a) (x1, y1, x2, y2)) = nrows a
   \<and> ncols (segment_car (Color a) (x1, y1, x2, y2)) = ncols a
   \<and> (\<not> in_box a (x1, y1, x2, y2) r c \<longrightarrow>
         cell (segment_car (Color a) (x1, y1, x2, y2)) r c = 0)
   \<and> (in_box a (x1, y1, x2, y2) r c \<longrightarrow>
         cell (segment_car (Color a) (x1, y1, x2, y2)) r c =
           (if (40 / 100 :: rat) * of_nat (nrows (crop a (x1, y1, x2, y2))
                                      * ncols (crop a (x1, y1, x2, y2)))
                 < of_nat (count_where (crop a (x1, y1, x2, y2))
                             (\<lambda>p. case p of (b, g, r) \<Rightarrow> 240 \<le> b \<and> 240 \<le> g \<and> 240 \<le> r))
            then 1
            else if (case cell a r c of (b, g, r) \<Rightarrow> 240 \<le> b \<and> 240 \<le> g \<and> 240 \<le> r)
                 then 0 else 1))"
proof -
  have "(\<lambda>p. case p of (b, g, r) \<Rightarrow> (240::8 word) \<le> b \<and> 240 \<le> g \<and> 240 \<le> r) = very_white"
    by (simp add: very_white_240 fun_eq_iff)
  moreover have "(case cell a r c of (b, g, r) \<Rightarrow> (240::8 word) \<le> b \<and> 240 \<le> g \<and> 240 \<le> r)
                 = very_white (cell a r c)"
    by (simp add: very_white_240)
  ultimately show ?thesis by (simp add: segment_car_Color)
qed

lemma thumbnail_box_left:
  "in_box (thumbnail_px bg) (0, 0, 2, 2) r c \<longleftrightarrow> r < 2 \<and> c < 2"
  by (auto simp: in_box_def in_slice_def slice_bound_def thumbnail_px_def)

lemma thumbnail_box_full:
  "in_box (thumbnail_px bg) (0, 0, 8, 2) r c \<longleftrightarrow> r < 2 \<and> c < 8"
  by (auto simp: in_box_def in_slice_def slice_bound_def thumbnail_px_def)

lemma thumbnail_left_white:
  "count_where (crop (thumbnail_px (250, 250, 250)) (0, 0, 2, 2))
     (\<lambda>p. case p of (b, g, r) \<Rightarrow> 240 \<le> b \<and> 240 \<le> g \<and> 240 \<le> r) = 2"
  "nrows (crop (thumbnail_px (250, 250, 250)) (0, 0, 2, 2))
     * ncols (crop (thumbnail_px (250, 250, 250)) (0, 0, 2, 2)) = 4"
  by (simp_all add: count_where_def select_def crop_def thumbnail_px_def slice_bound_def
      upt_small)

lemma thumbnail_full_white:
  "count_where (crop (thumbnail_px (250, 250, 250)) (0, 0, 8, 2))
     (\<lambda>p. case p of (b, g, r) \<Rightarrow> 240 \<le> b \<and> 240 \<le> g \<and> 240 \<le> r) = 4"
  "nrows (crop (thumbnail_px (250, 250, 250)) (0, 0, 8, 2))
     * ncols (crop (thumbnail_px (250, 250, 250)) (0, 0, 8, 2)) = 16"
  by (simp_all add: count_where_def select_def crop_def thumbnail_px_def slice_bound_def
      upt_small)

theorem segment_car_white_exclusion_witness:
  "in_box (thumbnail_px (250, 250, 250)) (0, 0, 8, 2) 0 0
   \<and> cell (segment_car (Color (thumbnail_px (250, 250, 250))) (0, 0, 8, 2)) 0 0 = 0
   \<and> in_box (thumbnail_px (250, 250, 250)) (0, 0, 8, 2) 0 3
   \<and> cell (segment_car (Color (thumbnail_px (250, 250, 250))) (0, 0, 8, 2)) 0 3 = 1
   \<and> in_box (thumbnail_px (250, 250, 250)) (0, 0, 2, 2) 0 0
   \<and> cell (segment_car (Color (thumbnail_px (250, 250, 250))) (0, 0, 2, 2)) 0 0 = 1
   \<and> \<not> in_box (thumbnail_px (250, 250, 250)) (0, 0, 2, 2) 0 3
   \<and> cell (segment_car (Color (thumbnail_px (250, 250, 250))) (0, 0, 2, 2)) 0 3 = 0"
proof -
  have px: "cell (thumbnail_px (250, 250, 250)) 0 0 = (250, 250, 250)"
    "cell (thumbnail_px (250, 250, 250)) 0 3 = (10, 20, 30)"
    by (simp_all add: thumbnail_px_def)
  from segment_car_white_exclusion [of "thumbnail_px (250, 250, 250)" 0 0 8 2 0 0]
    segment_car_white_exclusion [of "thumbnail_px (250, 250, 250)" 0 0 8 2 0 3]
    segment_car_white_exclusion [of "thumbnail_px (250, 250, 250)" 0 0 2 2 0 0]
    segment_car_white_exclusion [of "thumbnail_px (250, 250, 250)" 0 0 2 2 0 3]
  show ?thesis
    unfolding thumbnail_left_white thumbnail_full_white thumbnail_box_left thumbnail_box_full px
    by simp
qed

section \<open>Vision-model adapter (C8)\<close>

lemma strip_plain:
  assumes "s \<noteq> []" and "\<not> isspace (hd s)" and "\<not> isspace (last s)"
  shows "strip s = s"
proof -
  have "dropWhile isspace s = s"
    using assms(1,2) by (cases s) auto
  moreover have "dropWhile isspace (rev s) = rev s"
    using assms(1,3) by (cases "rev s") (auto simp: hd_rev [symmetric] simp del: hd_rev)
  ultimately show ?thesis by (simp add: strip_def)
qed

lemma startswith_hd:
  assumes "s \<noteq> []" and "p \<noteq> []" and "hd s \<noteq> hd p"
  shows "\<not> startswith s p"
  using assms by (cases s; cases p) (auto simp: startswith_def)

lemma endswith_last:
  assumes "s \<noteq> []" and "p \<noteq> []" and "last s \<noteq> last p"
  shows "\<not> endswith s p"
proof
  assume "endswith s p"
  then have "drop (length s - length p) s = p" and "length p \<le> length s"
    by (simp_all add: endswith_def)
  then have "last p = last (drop (length s - length p) s)" by simp
  also have "\<dots> = last s"
    using assms(1,2) \<open>length p \<le> length s\<close> by (intro last_drop) (cases p; simp)
  finally show False using assms(3) by simp
qed

lemma clean_deep_brackets: "clean_response deep_brackets = deep_brackets"
proof -
  have ne: "deep_brackets \<noteq> []" and h: "hd deep_brackets = 91" and l: "last deep_brackets = 91"
    by (simp_all add: deep_brackets_def)
  have s: "strip deep_brackets = deep_brackets"
    using ne by (intro strip_plain) (simp_all add: h l isspace_def)
  have a: "\<not> startswith deep_brackets (pystr ''```json'')"
    using ne by (intro startswith_hd) (simp_all add: h pystr_def)
  have b: "\<not> endswith deep_brackets (pystr ''```'')"
    using ne by (intro endswith_last) (simp_all add: l pystr_def)
  show ?thesis
    by (simp add: clean_response_def s a b)
qed

lemma loads_deep_brackets: "loads_stand_in deep_brackets = Raised RecursionError"
proof -
  have "length deep_brackets \<noteq> length (pystr ''{}'')"
    by (simp add: deep_brackets_def pystr_def)
  then have "deep_brackets \<noteq> pystr ''{}''" by auto
  moreover have "length (takeWhile (\<lambda>c. c = 91) deep_brackets) = 996"
    by (simp add: deep_brackets_def)
  ultimately show ?thesis by (simp add: loads_stand_in_def)
qed

lemma clean_fenced:
  "clean_response (pystr '' ```json nope ```  '') = pystr ''nope''"
  by (simp add: clean_response_def strip_def isspace_def startswith_def endswith_def pystr_def)

text \<open>A no-break space before the document is stripped, as \<open>str.strip()\<close> does.\<close>

lemma clean_no_break_space:
  "clean_response (160 # pystr ''{}'') = pystr ''{}''"
  by (simp add: clean_response_def strip_def isspace_def startswith_def endswith_def pystr_def)

lemma check_car_image_no_break_space:
  "check_car_image loads_stand_in (160 # pystr ''{}'') = Inr (JObject [])"
  by (simp add: check_car_image_def clean_no_break_space loads_stand_in_def)

text \<open>An exception of \<open>json.loads\<close> other than \<open>JSONDecodeError\<close> leaves the function.\<close>

lemma check_car_image_propagates:
  assumes "json_loads (clean_response content) = Raised e"
  shows "check_car_image json_loads content = Inl e"
  using assms by (simp add: check_car_image_def)

text \<open>
  C8, as the code has it. When \<open>json.loads\<close> raises \<open>JSONDecodeError\<close> on the cleaned
  response, \<open>check_car_image\<close> returns (it does not raise) the fixed dictionary with
  result "No", all five criteria false, \<open>failure_reasons = ["Failed to parse GPT response"]\<close>
  and \<open>error = "JSON parsing failed"\<close>.
\<close>

theorem parse_failure_fallback:
  assumes "json_loads (clean_response content) = JSONDecodeError"
  shows "check_car_image json_loads content =
     Inr (JObject
       [(pystr ''result'', JString (pystr ''No'')),
        (pystr ''criteria'', JObject
           [(pystr ''contains_car'', JBool False),
            (pystr ''side_view'', JBool False),
            (pystr ''white_background'', JBool False),
            (pystr ''proper_size'', JBool False),
            (pystr ''correct_orientation'', JBool False)]),
        (pystr ''failure_reasons'',
           JArray [JString (pystr ''Failed to parse GPT response'')]),
        (pystr ''error'', JString (pystr ''JSON parsing failed''))])"
  using assms by (simp add: check_car_image_def)

lemma loads_nope: "loads_stand_in (pystr ''nope'') = JSONDecodeError"
  by (simp add: loads_stand_in_def pystr_def)

theorem parse_failure_fallback_witness:
  "loads_stand_in (clean_response (pystr '' ```json nope ```  '')) = JSONDecodeError
   \<and> check_car_image loads_stand_in (pystr '' ```json nope ```  '') =
     Inr (JObject
       [(pystr ''result'', JString (pystr ''No'')),
        (pystr ''criteria'', JObject
           [(pystr ''contains_car'', JBool False),
            (pystr ''side_view'', JBool False),
            (pystr ''white_background'', JBool False),
            (pystr ''proper_size'', JBool False),
            (pystr ''correct_orientation'', JBool False)]),
        (pystr ''failure_reasons'',
           JArray [JString (pystr ''Failed to parse GPT response'')]),
        (pystr ''error'', JString (pystr ''JSON parsing failed''))])"
proof -
  have h: "loads_stand_in (clean_response (pystr '' ```json nope ```  '')) = JSONDecodeError"
    by (simp add: clean_fenced loads_nope)
  from h parse_failure_fallback [of loads_stand_in "pystr '' ```json nope ```  ''"]
  show ?thesis by simp
qed

text \<open>
  C8 as stated fails twice. The reason it names is "Failed to parse model response", and
  the dictionary the code returns differs from that one. And a response that the parser
  gives up on with \<open>RecursionError\<close> is not turned into the fallback: the exception
  reaches the caller.
\<close>

theorem fallback_wording_and_uncaught_error:
  "loads_stand_in (clean_response (pystr '' ```json nope ```  '')) = JSONDecodeError
   \<and> check_car_image loads_stand_in (pystr '' ```json nope ```  '') \<noteq> Inr spec_fallback
   \<and> check_car_image loads_stand_in deep_brackets = Inl RecursionError"
proof -
  have "pystr ''Failed to parse GPT response'' \<noteq> pystr ''Failed to parse model response''"
    by (simp add: pystr_def)
  then have "check_car_image loads_stand_in (pystr '' ```json nope ```  '') \<noteq> Inr spec_fallback"
    by (simp add: check_car_image_def clean_fenced loads_nope spec_fallback_def)
  moreover have "check_car_image loads_stand_in deep_brackets = Inl RecursionError"
    by (simp add: check_car_image_def clean_deep_brackets loads_deep_brackets)
  ultimately show ?thesis by (simp add: clean_fenced loads_nope)
qed

end
